theory Spec2Isabelle
  imports Complex_Main
begin

section \<open>The ComputeHive Python SDK (sdk/python/computehive/client.py)\<close>

text \<open>
  A shallow embedding of the client library. Python values that travel as JSON are the
  datatype \<open>json\<close>; a Python \<open>dict\<close> keeps its insertion order and is an association
  list with distinct keys; a Python \<open>float\<close> is read as the real number it stands for.
  Everything the client does to the outside (environment variables, the wall clock, the
  HTTP exchanges, sleeping, printing, calling the user's callback) goes through an
  explicit \<open>world\<close>, which every effectful function takes and returns.
  A name that a record field already uses is primed when it is a parameter
  (\<open>timeout'\<close> for the parameter \<open>timeout\<close>).
\<close>

subsection \<open>Values\<close>

datatype json =
    JNull
  | JBool bool
  | JInt int
  | JFloat real
  | JStr string
  | JList "json list"
  | JDict "(string \<times> json) list"

text \<open>An optional attribute: Python's \<open>None\<close> is \<open>JNull\<close>.\<close>

fun opt :: "('a \<Rightarrow> json) \<Rightarrow> 'a option \<Rightarrow> json" where
  "opt f None = JNull"
| "opt f (Some x) = f x"

definition str_list :: "string list \<Rightarrow> json" where
  "str_list xs = JList (map JStr xs)"

text \<open>\<open>class JobType(Enum)\<close> and its \<open>.value\<close>.\<close>

datatype JobType = DOCKER | BINARY | SCRIPT | WASM

fun JobType_value :: "JobType \<Rightarrow> string" where
  "JobType_value DOCKER = ''docker''"
| "JobType_value BINARY = ''binary''"
| "JobType_value SCRIPT = ''script''"
| "JobType_value WASM = ''wasm''"

text \<open>The three dataclasses. \<open>to_dict\<close> is \<open>asdict\<close> (the fields in declaration order)
  followed by the comprehension that keeps the items whose value \<open>is not None\<close>.\<close>

definition not_None :: "string \<times> json \<Rightarrow> bool" where
  "not_None kv = (snd kv \<noteq> JNull)"

record ResourceRequirements =
  cpu_cores :: int
  memory_mb :: int
  gpu_count :: int
  gpu_type :: "string option"
  storage_mb :: int
  network_mbps :: int
  trusted_exec :: bool
  capabilities :: "string list option"

definition ResourceRequirements_asdict :: "ResourceRequirements \<Rightarrow> (string \<times> json) list" where
  "ResourceRequirements_asdict r =
     [(''cpu_cores'', JInt (cpu_cores r)),
      (''memory_mb'', JInt (memory_mb r)),
      (''gpu_count'', JInt (gpu_count r)),
      (''gpu_type'', opt JStr (gpu_type r)),
      (''storage_mb'', JInt (storage_mb r)),
      (''network_mbps'', JInt (network_mbps r)),
      (''trusted_exec'', JBool (trusted_exec r)),
      (''capabilities'', opt str_list (capabilities r))]"

definition ResourceRequirements_to_dict :: "ResourceRequirements \<Rightarrow> (string \<times> json) list" where
  "ResourceRequirements_to_dict r = filter not_None (ResourceRequirements_asdict r)"

record SLARequirements =
  max_latency_ms :: "int option"
  min_availability :: "real option"
  max_cost_per_hour :: "real option"
  preferred_regions :: "string list option"

definition SLARequirements_asdict :: "SLARequirements \<Rightarrow> (string \<times> json) list" where
  "SLARequirements_asdict s =
     [(''max_latency_ms'', opt JInt (max_latency_ms s)),
      (''min_availability'', opt JFloat (min_availability s)),
      (''max_cost_per_hour'', opt JFloat (max_cost_per_hour s)),
      (''preferred_regions'', opt str_list (preferred_regions s))]"

definition SLARequirements_to_dict :: "SLARequirements \<Rightarrow> (string \<times> json) list" where
  "SLARequirements_to_dict s = filter not_None (SLARequirements_asdict s)"

record JobPayload =
  image' :: "string option"
  command :: "string list option"
  env :: "string list option"
  binary_url :: "string option"
  args :: "string list option"
  script :: "string option"
  language :: "string option"
  input_data :: "string option"
  output_path :: "string option"

definition JobPayload_asdict :: "JobPayload \<Rightarrow> (string \<times> json) list" where
  "JobPayload_asdict p =
     [(''image'', opt JStr (image' p)),
      (''command'', opt str_list (command p)),
      (''env'', opt str_list (env p)),
      (''binary_url'', opt JStr (binary_url p)),
      (''args'', opt str_list (args p)),
      (''script'', opt JStr (script p)),
      (''language'', opt JStr (language p)),
      (''input_data'', opt JStr (input_data p)),
      (''output_path'', opt JStr (output_path p))]"

definition JobPayload_to_dict :: "JobPayload \<Rightarrow> (string \<times> json) list" where
  "JobPayload_to_dict p = filter not_None (JobPayload_asdict p)"

subsection \<open>The HTTP library, as far as the client drives it\<close>

text \<open>
  What one HTTP exchange brings back: the time it took, the status code, the body as text
  and what \<open>response.json()\<close> makes of the body (\<open>None\<close> when it is not JSON).
\<close>

record response =
  elapsed :: real
  status_code :: int
  response_text :: string
  response_json :: "json option"

text \<open>The exceptions of \<open>requests.exceptions\<close> that can reach \<open>_make_request\<close>.
  Only \<open>HTTPError\<close> is caught by the first \<open>except\<close> clause; all are
  \<open>RequestException\<close>s.\<close>

datatype request_exception =
    HTTPError response
  | RetryError
  | ConnectionError
  | JSONDecodeError

text \<open>An f-string is kept as its pieces: literal text, interpolated values, and
  interpolated exceptions (whose text the library writes).\<close>

datatype frag = Text string | Val json | Exc request_exception

text \<open>The SDK's exception classes, and the Python exceptions its code can raise.
  \<open>Other\<close> is an exception of the user's callback.\<close>

datatype error =
    AuthenticationError "frag list"
  | ComputeHiveError "frag list"
  | JobError "frag list"
  | KeyError string
  | TypeError
  | AttributeError
  | ValueError
  | Other string

record request =
  http_method :: string
  url :: "frag list"
  json_body :: "json option"
  params :: "(string \<times> json) list option"
  request_timeout :: int

datatype event =
    SessionCreated
  | Mounted string
  | HeadersUpdated "(string \<times> string) list"
  | Request request
  | Exchange response
  | Slept real
  | Called json
  | Printed "frag list"

text \<open>
  The world: the process environment, the wall clock (\<open>time.time()\<close>), the answers the
  server will give to the next HTTP exchanges, in order, and the log of what the client
  has done so far (oldest first). When the answers run out the server is unreachable.
\<close>

record world =
  environ :: "string \<Rightarrow> string option"
  clock :: real
  replies :: "response list"
  events :: "event list"

text \<open>
  \<open>urllib3.util.retry.Retry\<close> as \<open>__init__\<close> configures it (lines 134-138):
  \<open>total\<close>, \<open>backoff_factor\<close> and \<open>status_forcelist\<close> are set, every other option keeps
  the library's default (\<open>allowed_methods\<close> the idempotent methods, \<open>raise_on_status\<close>
  true). The retry loop itself is the library's, not the client's; the functions below
  follow it, for servers that send no \<open>Retry-After\<close> header and for the upper-case
  method names the client passes:
  \<^item> \<open>Retry.is_retry(method, status_code)\<close> is false for a method outside
    \<open>allowed_methods\<close> and true for a status in \<open>status_forcelist\<close>;
  \<^item> \<open>Retry.increment\<close> takes one off \<open>total\<close> and raises \<open>MaxRetryError\<close> when the
    new object \<open>is_exhausted()\<close>, that is when \<open>total\<close> is below zero;
  \<^item> \<open>Retry.get_backoff_time\<close> is 0 after the first failure and
    \<open>backoff_factor * 2 ** (failures - 1)\<close>, at most \<open>BACKOFF_MAX\<close>, after the later ones;
    \<open>Retry.sleep\<close> sleeps that long when it is positive;
  \<^item> \<open>HTTPConnectionPool.urlopen\<close>, on a response \<open>is_retry\<close> accepts, calls
    \<open>increment\<close>, then sleeps and starts over; with \<open>raise_on_status\<close> the
    \<open>MaxRetryError\<close> goes up, and \<open>HTTPAdapter.send\<close> raises
    \<open>requests.exceptions.RetryError\<close> for it. Any other response is returned.
\<close>

record Retry =
  total' :: int
  backoff_factor :: int
  status_forcelist :: "int list"

definition DEFAULT_ALLOWED_METHODS :: "string list" where
  "DEFAULT_ALLOWED_METHODS = [''HEAD'', ''GET'', ''PUT'', ''DELETE'', ''OPTIONS'', ''TRACE'']"

definition is_retry :: "Retry \<Rightarrow> string \<Rightarrow> int \<Rightarrow> bool" where
  "is_retry retries m status =
     (m \<in> set DEFAULT_ALLOWED_METHODS \<and> status \<in> set (status_forcelist retries))"

definition increment :: "Retry \<Rightarrow> Retry" where
  "increment retries = retries\<lparr>total' := total' retries - 1\<rparr>"

definition is_exhausted :: "Retry \<Rightarrow> bool" where
  "is_exhausted retries = (total' retries < 0)"

text \<open>\<open>n\<close> is the number of consecutive failed exchanges so far (the length of the
  retry history); \<open>BACKOFF_MAX\<close> is 120 seconds.\<close>

definition get_backoff_time :: "Retry \<Rightarrow> nat \<Rightarrow> real" where
  "get_backoff_time retries n =
     (if n \<le> 1 then 0 else min 120 (of_int (backoff_factor retries) * 2 ^ (n - 1)))"

definition sleep_backoff :: "Retry \<Rightarrow> nat \<Rightarrow> event list" where
  "sleep_backoff retries n =
     (if get_backoff_time retries n \<le> 0 then [] else [Slept (get_backoff_time retries n)])"

text \<open>
  One call of the adapter: the outcome, the exchanges and sleeps it made, the time they
  took, and the answers the server has left. A status the policy retries costs one of
  \<open>total\<close>; when none is left the adapter raises (\<open>MaxRetryError\<close>, which \<open>requests\<close>
  turns into \<open>RetryError\<close>).
\<close>

fun urlopen ::
  "Retry \<Rightarrow> string \<Rightarrow> nat \<Rightarrow> response list \<Rightarrow>
     (request_exception + response) \<times> event list \<times> real \<times> response list" where
  "urlopen retries m n [] = (Inl ConnectionError, [], 0, [])"
| "urlopen retries m n (r # rs) =
     (if is_retry retries m (status_code r) then
        (if is_exhausted (increment retries) then (Inl RetryError, [Exchange r], elapsed r, rs)
         else
           (case urlopen (increment retries) m (Suc n) rs of
              (out, evs, t, rest) \<Rightarrow>
                (out,
                 Exchange r # sleep_backoff retries (Suc n) @ evs,
                 elapsed r + get_backoff_time retries (Suc n) + t,
                 rest)))
      else (Inr r, [Exchange r], elapsed r, rs))"

subsection \<open>The client\<close>

record Session =
  adapter :: Retry
  headers :: "(string \<times> string) list"

record ComputeHiveClient =
  api_url :: string
  api_key :: string
  session :: Session
  timeout :: int

definition getenv :: "world \<Rightarrow> string \<Rightarrow> string option" where
  "getenv w name = environ w name"

definition getenv_default :: "world \<Rightarrow> string \<Rightarrow> string \<Rightarrow> string" where
  "getenv_default w name dflt = (case environ w name of None \<Rightarrow> dflt | Some v \<Rightarrow> v)"

text \<open>Python's \<open>a or b\<close> on an optional string \<open>a\<close>: \<open>a\<close> when it is truthy (neither
  \<open>None\<close> nor empty), else \<open>b\<close>; once with \<open>b\<close> a string and once with \<open>b\<close> optional.\<close>

fun truthy_str :: "string option \<Rightarrow> bool" where
  "truthy_str None = False"
| "truthy_str (Some s) = (s \<noteq> [])"

definition or_str :: "string option \<Rightarrow> string \<Rightarrow> string" where
  "or_str a b = (case a of None \<Rightarrow> b | Some s \<Rightarrow> if s \<noteq> [] then s else b)"

definition py_or :: "string option \<Rightarrow> string option \<Rightarrow> string option" where
  "py_or a b = (if truthy_str a then a else b)"

definition session_headers :: "string \<Rightarrow> (string \<times> string) list" where
  "session_headers key =
     [(''Authorization'', ''Bearer '' @ key),
      (''Content-Type'', ''application/json''),
      (''User-Agent'', ''ComputeHive-Python-SDK/1.0.0'')]"

definition retry_strategy :: "int \<Rightarrow> Retry" where
  "retry_strategy max_retries =
     \<lparr>total' = max_retries, backoff_factor = 1, status_forcelist = [429, 500, 502, 503, 504]\<rparr>"

definition api_key_required :: error where
  "api_key_required =
     AuthenticationError
       [Text ''API key is required. Set COMPUTEHIVE_API_KEY environment variable or pass api_key parameter.'']"

text \<open>\<open>ComputeHiveClient.__init__(api_url, api_key, timeout, max_retries)\<close>; the defaults
  of the last two are 30 and 3. The check \<open>if not self.api_key\<close> rejects \<open>None\<close> and
  the empty string; nothing of the session exists before it.\<close>

definition ComputeHiveClient_init ::
  "string option \<Rightarrow> string option \<Rightarrow> int \<Rightarrow> int \<Rightarrow> world \<Rightarrow> (error + ComputeHiveClient) \<times> world" where
  "ComputeHiveClient_init api_url' api_key' timeout' max_retries w =
     (case py_or api_key' (getenv w ''COMPUTEHIVE_API_KEY'') of
        None \<Rightarrow> (Inl api_key_required, w)
      | Some the_key \<Rightarrow>
          (if the_key = [] then (Inl api_key_required, w)
           else
             (Inr \<lparr>api_url =
                      or_str api_url'
                        (getenv_default w ''COMPUTEHIVE_API_URL'' ''https://api.computehive.io''),
                    api_key = the_key,
                    session = \<lparr>adapter = retry_strategy max_retries,
                                headers = session_headers the_key\<rparr>,
                    timeout = timeout'\<rparr>,
              w\<lparr>events := events w @
                 [SessionCreated, Mounted ''http://'', Mounted ''https://'',
                  HeadersUpdated (session_headers the_key)]\<rparr>)))"

definition create_client :: "string option \<Rightarrow> world \<Rightarrow> (error + ComputeHiveClient) \<times> world" where
  "create_client api_key' w = ComputeHiveClient_init None api_key' 30 3 w"

subsection \<open>Transport: \<open>_make_request\<close>\<close>

text \<open>\<open>self.session.request(...)\<close>: the request is handed to the adapter, which makes
  the exchanges; the clock moves by the time they and the backoff sleeps took.\<close>

definition session_request ::
  "ComputeHiveClient \<Rightarrow> request \<Rightarrow> world \<Rightarrow> (request_exception + response) \<times> world" where
  "session_request c req w =
     (case urlopen (adapter (session c)) (http_method req) 0 (replies w) of
        (out, evs, t, rest) \<Rightarrow>
          (out, w\<lparr>clock := clock w + t, replies := rest,
                   events := events w @ Request req # evs\<rparr>))"

definition raise_for_status :: "response \<Rightarrow> request_exception + unit" where
  "raise_for_status r =
     (if 400 \<le> status_code r \<and> status_code r < 600 then Inl (HTTPError r) else Inr ())"

text \<open>The two \<open>except\<close> clauses of \<open>_make_request\<close>, in their order.\<close>

fun handle_exception :: "request_exception \<Rightarrow> error" where
  "handle_exception (HTTPError r) =
     (if status_code r = 401 then
        AuthenticationError [Text ''Invalid API key or authentication failed'']
      else if status_code r = 400 then
        ComputeHiveError [Text ''Bad request: '', Text (response_text r)]
      else ComputeHiveError [Text ''API request failed: '', Exc (HTTPError r)])"
| "handle_exception e = ComputeHiveError [Text ''Network error: '', Exc e]"

definition make_request ::
  "ComputeHiveClient \<Rightarrow> string \<Rightarrow> frag list \<Rightarrow> json option \<Rightarrow> (string \<times> json) list option \<Rightarrow>
     world \<Rightarrow> (error + json) \<times> world" where
  "make_request c m endpoint data' params' w =
     (case session_request c
             \<lparr>http_method = m, url = Text (api_url c) # endpoint, json_body = data',
              params = params', request_timeout = timeout c\<rparr> w of
        (Inl e, w') \<Rightarrow> (Inl (handle_exception e), w')
      | (Inr r, w') \<Rightarrow>
          (case raise_for_status r of
             Inl e \<Rightarrow> (Inl (handle_exception e), w')
           | Inr u \<Rightarrow>
               (case response_json r of
                  None \<Rightarrow> (Inl (handle_exception JSONDecodeError), w')
                | Some j \<Rightarrow> (Inr j, w'))))"

subsection \<open>API surface\<close>

definition submit_job_data ::
  "JobType \<Rightarrow> ResourceRequirements \<Rightarrow> JobPayload \<Rightarrow> int \<Rightarrow> int \<Rightarrow> int \<Rightarrow>
     SLARequirements option \<Rightarrow> (string \<times> json) list" where
  "submit_job_data job_type requirements payload priority timeout' max_retries sla_requirements =
     [(''type'', JStr (JobType_value job_type)),
      (''requirements'', JDict (ResourceRequirements_to_dict requirements)),
      (''payload'', JDict (JobPayload_to_dict payload)),
      (''priority'', JInt priority),
      (''timeout'', JInt timeout'),
      (''max_retries'', JInt max_retries)]
     @ (case sla_requirements of
          None \<Rightarrow> []
        | Some sla \<Rightarrow> [(''sla_requirements'', JDict (SLARequirements_to_dict sla))])"

definition submit_job ::
  "ComputeHiveClient \<Rightarrow> JobType \<Rightarrow> ResourceRequirements \<Rightarrow> JobPayload \<Rightarrow> int \<Rightarrow> int \<Rightarrow> int \<Rightarrow>
     SLARequirements option \<Rightarrow> world \<Rightarrow> (error + json) \<times> world" where
  "submit_job c job_type requirements payload priority timeout' max_retries sla_requirements w =
     make_request c ''POST'' [Text ''/api/v1/jobs'']
       (Some (JDict (submit_job_data job_type requirements payload priority timeout'
                       max_retries sla_requirements)))
       None w"

definition get_job :: "ComputeHiveClient \<Rightarrow> json \<Rightarrow> world \<Rightarrow> (error + json) \<times> world" where
  "get_job c job_id w = make_request c ''GET'' [Text ''/api/v1/jobs/'', Val job_id] None None w"

definition get_job_result :: "ComputeHiveClient \<Rightarrow> json \<Rightarrow> world \<Rightarrow> (error + json) \<times> world" where
  "get_job_result c job_id w =
     make_request c ''GET'' [Text ''/api/v1/jobs/'', Val job_id, Text ''/result''] None None w"

text \<open>\<open>get_marketplace_offers\<close>: each \<open>if x:\<close> tests the truth value of the argument, so
  \<open>None\<close>, zero and the empty string all leave the key out.\<close>

definition marketplace_params ::
  "int option \<Rightarrow> int option \<Rightarrow> real option \<Rightarrow> string option \<Rightarrow> (string \<times> json) list" where
  "marketplace_params min_cpu min_memory max_price region =
     (case min_cpu of None \<Rightarrow> [] | Some n \<Rightarrow> if n \<noteq> 0 then [(''min_cpu'', JInt n)] else [])
     @ (case min_memory of None \<Rightarrow> [] | Some n \<Rightarrow> if n \<noteq> 0 then [(''min_memory'', JInt n)] else [])
     @ (case max_price of None \<Rightarrow> [] | Some x \<Rightarrow> if x \<noteq> 0 then [(''max_price'', JFloat x)] else [])
     @ (case region of None \<Rightarrow> [] | Some s \<Rightarrow> if s \<noteq> [] then [(''region'', JStr s)] else [])"

definition get_marketplace_offers ::
  "ComputeHiveClient \<Rightarrow> int option \<Rightarrow> int option \<Rightarrow> real option \<Rightarrow> string option \<Rightarrow>
     world \<Rightarrow> (error + json) \<times> world" where
  "get_marketplace_offers c min_cpu min_memory max_price region w =
     make_request c ''GET'' [Text ''/api/v1/marketplace/offers''] None
       (Some (marketplace_params min_cpu min_memory max_price region)) w"

subsection \<open>Convenience layer: \<open>submit_docker_job\<close>\<close>

text \<open>The keyword arguments \<open>submit_docker_job\<close> forwards to \<open>submit_job\<close>; \<open>None\<close> is
  an argument that was not passed, so \<open>submit_job\<close>'s default applies.\<close>

record kwargs =
  kw_priority :: "int option"
  kw_timeout :: "int option"
  kw_max_retries :: "int option"
  kw_sla_requirements :: "SLARequirements option"

definition no_kwargs :: kwargs where
  "no_kwargs = \<lparr>kw_priority = None, kw_timeout = None, kw_max_retries = None,
                 kw_sla_requirements = None\<rparr>"

fun dflt :: "'a \<Rightarrow> 'a option \<Rightarrow> 'a" where
  "dflt d None = d"
| "dflt d (Some x) = x"

text \<open>\<open>[f"{k}={v}" for k, v in (env or {}).items()]\<close>.\<close>

definition env_list :: "(string \<times> string) list option \<Rightarrow> string list" where
  "env_list env' = map (\<lambda>(k, v). k @ ''='' @ v) (case env' of None \<Rightarrow> [] | Some d \<Rightarrow> d)"

definition docker_requirements :: "int \<Rightarrow> int \<Rightarrow> int \<Rightarrow> ResourceRequirements" where
  "docker_requirements cpu_cores' memory_mb' gpu_count' =
     \<lparr>cpu_cores = cpu_cores', memory_mb = memory_mb', gpu_count = gpu_count', gpu_type = None,
      storage_mb = 1024, network_mbps = 100, trusted_exec = False, capabilities = None\<rparr>"

definition docker_payload :: "string \<Rightarrow> string list \<Rightarrow> (string \<times> string) list option \<Rightarrow> JobPayload" where
  "docker_payload img cmd env' =
     \<lparr>image' = Some img, command = Some cmd, env = Some (env_list env'), binary_url = None,
      args = None, script = None, language = None, input_data = None, output_path = None\<rparr>"

definition submit_docker_job ::
  "ComputeHiveClient \<Rightarrow> string \<Rightarrow> string list \<Rightarrow> int \<Rightarrow> int \<Rightarrow> int \<Rightarrow>
     (string \<times> string) list option \<Rightarrow> kwargs \<Rightarrow> world \<Rightarrow> (error + json) \<times> world" where
  "submit_docker_job c img cmd cpu_cores' memory_mb' gpu_count' env' kw w =
     submit_job c DOCKER
       (docker_requirements cpu_cores' memory_mb' gpu_count')
       (docker_payload img cmd env')
       (dflt 5 (kw_priority kw)) (dflt 3600 (kw_timeout kw)) (dflt 3 (kw_max_retries kw))
       (kw_sla_requirements kw) w"

subsection \<open>Polling engine: \<open>wait_for_job\<close>\<close>

text \<open>\<open>job.get(key)\<close>: \<open>None\<close> for a missing key; only a dict has the method.
  \<open>job[key]\<close>: \<open>KeyError\<close> for a missing key of a dict, \<open>TypeError\<close> for any other
  JSON value.\<close>

fun py_get :: "json \<Rightarrow> string \<Rightarrow> error + json" where
  "py_get (JDict d) k = Inr (case map_of d k of None \<Rightarrow> JNull | Some v \<Rightarrow> v)"
| "py_get j k = Inl AttributeError"

fun py_getitem :: "json \<Rightarrow> string \<Rightarrow> error + json" where
  "py_getitem (JDict d) k = (case map_of d k of None \<Rightarrow> Inl (KeyError k) | Some v \<Rightarrow> Inr v)"
| "py_getitem j k = Inl TypeError"

definition terminal :: "json list" where
  "terminal = [JStr ''completed'', JStr ''failed'', JStr ''cancelled'']"

text \<open>\<open>time.sleep\<close> raises \<open>ValueError\<close> on a negative length.\<close>

definition sleep :: "int \<Rightarrow> world \<Rightarrow> (error + unit) \<times> world" where
  "sleep d w =
     (if d < 0 then (Inl ValueError, w)
      else (Inr (), w\<lparr>clock := clock w + of_int d, events := events w @ [Slept (of_int d)]\<rparr>))"

text \<open>The user's callback observes the record (it does not change it): a call takes some
  time, and then returns (its value is dropped) or raises. \<open>if callback:\<close> skips an
  absent one.\<close>

type_synonym callback = "json \<Rightarrow> real \<times> error option"

definition invoke :: "callback option \<Rightarrow> json \<Rightarrow> world \<Rightarrow> (error + unit) \<times> world" where
  "invoke callback job w =
     (case callback of
        None \<Rightarrow> (Inr (), w)
      | Some f \<Rightarrow>
          (case f job of
             (t, None) \<Rightarrow>
               (Inr (), w\<lparr>clock := clock w + t, events := events w @ [Called job]\<rparr>)
           | (t, Some e) \<Rightarrow>
               (Inl e, w\<lparr>clock := clock w + t, events := events w @ [Called job]\<rparr>)))"

definition job_timeout :: "json \<Rightarrow> int \<Rightarrow> error" where
  "job_timeout job_id timeout' =
     JobError [Text ''Job '', Val job_id, Text '' did not complete within '',
               Val (JInt timeout'), Text '' seconds'']"

text \<open>A request that returns a response has used up at least one answer of the server;
  the callback and \<open>time.sleep\<close> use none.\<close>

lemma urlopen_consumes:
  "urlopen retries m n rs = (Inr r, evs, t, rest) \<Longrightarrow> length rest < length rs"
proof (induction rs arbitrary: retries n evs t)
  case Nil
  then show ?case by simp
next
  case (Cons a rs)
  then show ?case
    by (fastforce split: if_splits prod.splits)
qed

lemma session_request_consumes:
  "session_request c req w = (Inr r, w') \<Longrightarrow> length (replies w') < length (replies w)"
  by (auto simp: session_request_def split: prod.splits dest: urlopen_consumes)

lemma make_request_consumes:
  "make_request c m e d p w = (Inr j, w') \<Longrightarrow> length (replies w') < length (replies w)"
  by (auto simp: make_request_def split: prod.splits sum.splits option.splits
           dest: session_request_consumes)

lemma get_job_consumes:
  "get_job c job_id w = (Inr j, w') \<Longrightarrow> length (replies w') < length (replies w)"
  unfolding get_job_def by (rule make_request_consumes)

lemma invoke_replies: "invoke cb job w = (x, w') \<Longrightarrow> replies w' = replies w"
  by (auto simp: invoke_def split: option.splits prod.splits)

lemma sleep_replies: "sleep d w = (x, w') \<Longrightarrow> replies w' = replies w"
  by (auto simp: sleep_def split: if_splits)

text \<open>
  The \<open>while\<close> loop of \<open>wait_for_job\<close>, from one test of its condition on. Each round
  that goes on has had an answer from the server, so the loop ends when the answers do
  (the probe then fails), if not before.
\<close>

function wait_loop ::
  "ComputeHiveClient \<Rightarrow> json \<Rightarrow> int \<Rightarrow> int \<Rightarrow> callback option \<Rightarrow> real \<Rightarrow>
     world \<Rightarrow> (error + json) \<times> world" where
  "wait_loop c job_id timeout' poll_interval callback start_time w =
     (if clock w - start_time < of_int timeout' then
        (case get_job c job_id w of
           (Inl e, w1) \<Rightarrow> (Inl e, w1)
         | (Inr job, w1) \<Rightarrow>
             (case invoke callback job w1 of
                (Inl e, w2) \<Rightarrow> (Inl e, w2)
              | (Inr u, w2) \<Rightarrow>
                  (case py_get job ''status'' of
                     Inl e \<Rightarrow> (Inl e, w2)
                   | Inr status \<Rightarrow>
                       (if status \<in> set terminal then (Inr job, w2)
                        else
                          (case sleep poll_interval w2 of
                             (Inl e, w3) \<Rightarrow> (Inl e, w3)
                           | (Inr u', w3) \<Rightarrow>
                               wait_loop c job_id timeout' poll_interval callback start_time w3)))))
      else (Inl (job_timeout job_id timeout'), w))"
  by pat_completeness auto
termination
proof (relation "measure (\<lambda>(c, job_id, t, p, cb, s, w). length (replies w))")
  show "wf (measure (\<lambda>(c, job_id, t, p, cb, s, w). length (replies w)))" by simp
next
  fix c job_id timeout' poll_interval callback start_time w x w1 job x2 w2 u status x3 w3 u'
  assume "(x, w1) = get_job c job_id w" "x = Inr job"
    "(x2, w2) = invoke callback job w1" "(x3, w3) = sleep poll_interval w2"
  then have g: "get_job c job_id w = (Inr job, w1)" and i: "invoke callback job w1 = (x2, w2)"
    and s: "sleep poll_interval w2 = (x3, w3)"
    by simp_all
  have "length (replies w1) < length (replies w)" "replies w2 = replies w1"
    "replies w3 = replies w2"
    using get_job_consumes [OF g] invoke_replies [OF i] sleep_replies [OF s] by simp_all
  then show "((c, job_id, timeout', poll_interval, callback, start_time, w3),
         (c, job_id, timeout', poll_interval, callback, start_time, w)) \<in>
        measure (\<lambda>(c, job_id, t, p, cb, s, w). length (replies w))"
    by simp
qed


declare wait_loop.simps [simp del]

text \<open>\<open>wait_for_job(job_id, timeout, poll_interval, callback)\<close>: \<open>start_time\<close> is the clock
  read once before the loop; the defaults are 3600, 5 and no callback.\<close>

definition wait_for_job ::
  "ComputeHiveClient \<Rightarrow> json \<Rightarrow> int \<Rightarrow> int \<Rightarrow> callback option \<Rightarrow>
     world \<Rightarrow> (error + json) \<times> world" where
  "wait_for_job c job_id timeout' poll_interval callback w =
     wait_loop c job_id timeout' poll_interval callback (clock w) w"

subsection \<open>\<open>quick_run_docker\<close>\<close>

text \<open>Its keyword arguments go to \<open>submit_docker_job\<close>, which takes four of them itself
  and forwards the rest.\<close>

record docker_kwargs =
  kw_cpu_cores :: "int option"
  kw_memory_mb :: "int option"
  kw_gpu_count :: "int option"
  kw_env :: "(string \<times> string) list option"
  kw_more :: kwargs

definition no_docker_kwargs :: docker_kwargs where
  "no_docker_kwargs =
     \<lparr>kw_cpu_cores = None, kw_memory_mb = None, kw_gpu_count = None, kw_env = None,
      kw_more = no_kwargs\<rparr>"

definition print :: "frag list \<Rightarrow> world \<Rightarrow> world" where
  "print msg w = w\<lparr>events := events w @ [Printed msg]\<rparr>"

definition quick_run_docker ::
  "string \<Rightarrow> string list \<Rightarrow> string option \<Rightarrow> bool \<Rightarrow> docker_kwargs \<Rightarrow> world \<Rightarrow>
     (error + json) \<times> world" where
  "quick_run_docker img cmd api_key' wait kw w =
     (case create_client api_key' w of
        (Inl e, w0) \<Rightarrow> (Inl e, w0)
      | (Inr client, w0) \<Rightarrow>
          (case submit_docker_job client img cmd
                  (dflt 1 (kw_cpu_cores kw)) (dflt 1024 (kw_memory_mb kw))
                  (dflt 0 (kw_gpu_count kw)) (kw_env kw) (kw_more kw) w0 of
             (Inl e, w1) \<Rightarrow> (Inl e, w1)
           | (Inr job, w1) \<Rightarrow>
               (if wait then
                  (case py_getitem job ''id'' of
                     Inl e \<Rightarrow> (Inl e, w1)
                   | Inr job_id \<Rightarrow>
                       (case wait_for_job client job_id 3600 5 None
                               (print [Text ''Job '', Val job_id,
                                       Text '' submitted, waiting for completion...''] w1) of
                          (Inl e, w3) \<Rightarrow> (Inl e, w3)
                        | (Inr result, w3) \<Rightarrow>
                            (case py_getitem result ''status'' of
                               Inl e \<Rightarrow> (Inl e, w3)
                             | Inr status \<Rightarrow>
                                 (if status = JStr ''completed'' then get_job_result client job_id w3
                                  else (Inl (JobError [Text ''Job failed with status: '',
                                                       Val status]), w3)))))
                else (Inr job, w1))))"

section \<open>Vocabulary of the properties\<close>

text \<open>The requests handed to the transport (\<open>session.request\<close>), in order, and a field
  of the JSON body of one.\<close>

fun requests_of :: "event list \<Rightarrow> request list" where
  "requests_of [] = []"
| "requests_of (Request r # es) = r # requests_of es"
| "requests_of (e # es) = requests_of es"

definition body_field :: "request \<Rightarrow> string \<Rightarrow> json option" where
  "body_field r k = (case json_body r of Some (JDict d) \<Rightarrow> map_of d k | _ \<Rightarrow> None)"

text \<open>Concrete inputs: a client as the constructor builds it with its defaults, a process
  with no environment variable whose server will give the listed answers, and a process
  whose only environment variable is the API key.\<close>

definition example_client :: ComputeHiveClient where
  "example_client =
     \<lparr>api_url = ''https://api.computehive.io'', api_key = ''key'',
      session = \<lparr>adapter = retry_strategy 3, headers = session_headers ''key''\<rparr>,
      timeout = 30\<rparr>"

definition server :: "response list \<Rightarrow> world" where
  "server rs = \<lparr>environ = (\<lambda>name. None), clock = 0, replies = rs, events = []\<rparr>"

definition with_env_key :: "string \<Rightarrow> world" where
  "with_env_key k =
     \<lparr>environ = (\<lambda>name. if name = ''COMPUTEHIVE_API_KEY'' then Some k else None),
      clock = 0, replies = [], events = []\<rparr>"

text \<open>
  The polling loop is described by the answers the server gives to its probes. An answer
  is a \<open>success\<close> when its status is 2xx; \<open>status_of\<close> is what \<open>job.get("status")\<close> reads
  in its decoded body. It is \<open>running\<close> when that status is not terminal and \<open>finished\<close>
  when it is. \<open>quiet callback r\<close>: the callback, if any, returns on the record of \<open>r\<close>.
  \<open>probe_events\<close> is what one probe adds to the log (the request, the exchange, the call of
  the callback), \<open>round_events\<close> a probe followed by the sleep. \<open>probe_time\<close> is the time
  one probe takes (the exchange, then the callback on its record) and \<open>rounds_time\<close> the
  time that rounds over the given answers take, each a probe and the sleep.
\<close>

definition get_job_request :: "ComputeHiveClient \<Rightarrow> json \<Rightarrow> request" where
  "get_job_request c job_id =
     \<lparr>http_method = ''GET'', url = [Text (api_url c), Text ''/api/v1/jobs/'', Val job_id],
      json_body = None, params = None, request_timeout = timeout c\<rparr>"

definition success :: "response \<Rightarrow> bool" where
  "success r = (200 \<le> status_code r \<and> status_code r < 300)"

definition status_of :: "response \<Rightarrow> json option" where
  "status_of r =
     (case response_json r of
        None \<Rightarrow> None
      | Some j \<Rightarrow> (case py_get j ''status'' of Inl e \<Rightarrow> None | Inr s \<Rightarrow> Some s))"

definition running :: "response \<Rightarrow> bool" where
  "running r = (success r \<and> (case status_of r of None \<Rightarrow> False | Some s \<Rightarrow> s \<notin> set terminal))"

definition finished :: "response \<Rightarrow> bool" where
  "finished r = (success r \<and> (case status_of r of None \<Rightarrow> False | Some s \<Rightarrow> s \<in> set terminal))"

definition probe_events ::
  "ComputeHiveClient \<Rightarrow> json \<Rightarrow> callback option \<Rightarrow> response \<Rightarrow> event list" where
  "probe_events c job_id callback r =
     [Request (get_job_request c job_id), Exchange r]
     @ (case callback of
          None \<Rightarrow> []
        | Some f \<Rightarrow> (case response_json r of None \<Rightarrow> [] | Some j \<Rightarrow> [Called j]))"

definition round_events ::
  "ComputeHiveClient \<Rightarrow> json \<Rightarrow> callback option \<Rightarrow> int \<Rightarrow> response \<Rightarrow> event list" where
  "round_events c job_id callback poll_interval r =
     probe_events c job_id callback r @ [Slept (of_int poll_interval)]"

definition quiet :: "callback option \<Rightarrow> response \<Rightarrow> bool" where
  "quiet callback r =
     (case callback of
        None \<Rightarrow> True
      | Some f \<Rightarrow> (case response_json r of None \<Rightarrow> True | Some j \<Rightarrow> snd (f j) = None))"

definition callback_time :: "callback option \<Rightarrow> response \<Rightarrow> real" where
  "callback_time callback r =
     (case callback of
        None \<Rightarrow> 0
      | Some f \<Rightarrow> (case response_json r of None \<Rightarrow> 0 | Some j \<Rightarrow> fst (f j)))"

definition probe_time :: "callback option \<Rightarrow> response \<Rightarrow> real" where
  "probe_time callback r = elapsed r + callback_time callback r"

definition rounds_time :: "int \<Rightarrow> callback option \<Rightarrow> response list \<Rightarrow> real" where
  "rounds_time poll_interval callback rs =
     sum_list (map (\<lambda>r. probe_time callback r + of_int poll_interval) rs)"

text \<open>More concrete inputs: an instantaneous answer with status 200, one that takes
  \<open>t\<close> seconds, a 404, a job record with the given status, a callback that only
  observes and one that raises, and the world right after the constructor built
  \<open>example_client\<close> in \<open>server []\<close>.\<close>

definition mock :: "json \<Rightarrow> response" where
  "mock j = \<lparr>elapsed = 0, status_code = 200, response_text = [], response_json = Some j\<rparr>"

definition slow :: "real \<Rightarrow> json \<Rightarrow> response" where
  "slow t j = \<lparr>elapsed = t, status_code = 200, response_text = [], response_json = Some j\<rparr>"

definition not_found :: response where
  "not_found = \<lparr>elapsed = 0, status_code = 404, response_text = ''no such job'', response_json = None\<rparr>"

definition job_record :: "string \<Rightarrow> json" where
  "job_record st = JDict [(''id'', JStr ''job-1''), (''status'', JStr st)]"

definition observer :: callback where
  "observer j = (0, None)"

definition raiser :: callback where
  "raiser j = (0, Some (Other ''boom''))"

definition created :: world where
  "created = \<lparr>environ = (\<lambda>name. None), clock = 0, replies = [],
              events = [SessionCreated, Mounted ''http://'', Mounted ''https://'',
                        HeadersUpdated (session_headers ''key'')]\<rparr>"

definition result_record :: json where
  "result_record = JDict [(''exit'', JInt 0), (''stdout'', JStr ''hi'')]"

text \<open>
  For the transport: the exchanges the server answered, in order (each is one attempt); an
  answer is \<open>transient\<close> when its status is one the retry policy lists;
  \<open>backoff_total retries h k\<close> is the time the adapter sleeps over \<open>k\<close> consecutive
  retries after \<open>h\<close> earlier failures. Then three answers: a 503, a 400 and a 401.
\<close>

fun exchanges_of :: "event list \<Rightarrow> response list" where
  "exchanges_of [] = []"
| "exchanges_of (Exchange r # es) = r # exchanges_of es"
| "exchanges_of (e # es) = exchanges_of es"

definition transient :: "response \<Rightarrow> bool" where
  "transient r = (status_code r \<in> set [429, 500, 502, 503, 504])"

definition backoff_total :: "Retry \<Rightarrow> nat \<Rightarrow> nat \<Rightarrow> real" where
  "backoff_total retries h k = sum_list (map (get_backoff_time retries) [Suc h..<Suc h + k])"

definition unavailable :: response where
  "unavailable = \<lparr>elapsed = 0, status_code = 503, response_text = ''busy'', response_json = None\<rparr>"

definition bad_request :: response where
  "bad_request =
     \<lparr>elapsed = 0, status_code = 400, response_text = ''priority out of range'',
      response_json = None\<rparr>"

definition unauthorized :: response where
  "unauthorized = \<lparr>elapsed = 0, status_code = 401, response_text = ''expired'', response_json = None\<rparr>"

section \<open>Request construction\<close>

lemma requests_of_append: "requests_of (xs @ ys) = requests_of xs @ requests_of ys"
  by (induction xs rule: requests_of.induct) simp_all

lemma sleep_backoff_requests: "requests_of (sleep_backoff retries n) = []"
  by (simp add: sleep_backoff_def)

lemma urlopen_requests:
  "urlopen retries m n rs = (out, evs, t, rest) \<Longrightarrow> requests_of evs = []"
proof (induction rs arbitrary: retries n out evs t rest)
  case Nil
  then show ?case by simp
next
  case (Cons r rs)
  then show ?case
    by (auto simp: requests_of_append sleep_backoff_requests split: if_splits prod.splits)
qed

lemma session_request_requests:
  "requests_of (events (snd (session_request c req w))) = requests_of (events w) @ [req]"
  by (auto simp: session_request_def requests_of_append split: prod.splits dest: urlopen_requests)

text \<open>Every call of \<open>_make_request\<close> hands exactly one request to the transport, whatever
  the server answers.\<close>

lemma make_request_requests:
  "requests_of (events (snd (make_request c m e d p w))) =
     requests_of (events w) @
       [\<lparr>http_method = m, url = Text (api_url c) # e, json_body = d, params = p,
         request_timeout = timeout c\<rparr>]"
proof -
  let ?req = "\<lparr>http_method = m, url = Text (api_url c) # e, json_body = d, params = p,
         request_timeout = timeout c\<rparr>"
  have "snd (make_request c m e d p w) = snd (session_request c ?req w)"
    by (simp add: make_request_def split: prod.splits sum.splits option.splits)
  then show ?thesis by (simp add: session_request_requests)
qed

text \<open>
  C1, as the code has it. For every client and every state of the world,
  \<open>submit_docker_job("alpine", ["echo","ok"], cpu_cores=2, memory_mb=512)\<close> hands the
  transport one request, a POST to \<open>/api/v1/jobs\<close>, whose body is the dictionary below:
  \<open>requirements.cpu_cores = 2\<close>, \<open>payload.image = "alpine"\<close>,
  \<open>payload.command = ["echo","ok"]\<close>, \<open>priority = 5\<close>, \<open>timeout = 3600\<close>,
  \<open>max_retries = 3\<close>, and \<open>type = "docker"\<close>, the value of \<open>JobType.DOCKER\<close>.
\<close>

theorem submit_docker_job_body:
  "requests_of (events (snd (submit_docker_job c ''alpine'' [''echo'', ''ok''] 2 512 0 None no_kwargs w))) =
     requests_of (events w) @
       [\<lparr>http_method = ''POST'',
         url = [Text (api_url c), Text ''/api/v1/jobs''],
         json_body = Some (JDict
           [(''type'', JStr ''docker''),
            (''requirements'', JDict
               [(''cpu_cores'', JInt 2), (''memory_mb'', JInt 512), (''gpu_count'', JInt 0),
                (''storage_mb'', JInt 1024), (''network_mbps'', JInt 100),
                (''trusted_exec'', JBool False)]),
            (''payload'', JDict
               [(''image'', JStr ''alpine''), (''command'', JList [JStr ''echo'', JStr ''ok'']),
                (''env'', JList [])]),
            (''priority'', JInt 5), (''timeout'', JInt 3600), (''max_retries'', JInt 3)]),
         params = None,
         request_timeout = timeout c\<rparr>]"
  by (simp add: submit_docker_job_def submit_job_def make_request_requests submit_job_data_def
      no_kwargs_def docker_requirements_def docker_payload_def env_list_def
      ResourceRequirements_to_dict_def ResourceRequirements_asdict_def
      JobPayload_to_dict_def JobPayload_asdict_def not_None_def str_list_def)

text \<open>
  C1 as the specification words it fails: the \<open>type\<close> of the body that this call sends
  is not \<open>"container-image"\<close>.
\<close>

theorem submit_docker_job_type_counterexample:
  "body_field
     (last (requests_of (events (snd
        (submit_docker_job example_client ''alpine'' [''echo'', ''ok''] 2 512 0 None no_kwargs
           (server []))))))
     ''type'' \<noteq> Some (JStr ''container-image'')"
  by (simp add: submit_docker_job_def submit_job_def make_request_requests submit_job_data_def
      body_field_def)

text \<open>
  C10. Whatever the arguments of \<open>submit_docker_job\<close>, the payload of the body it sends is
  exactly \<open>image\<close>, \<open>command\<close> and \<open>env\<close>: the key \<open>env\<close> is always there, bound to the
  flattened list, and that list is empty when \<open>env\<close> is \<open>None\<close>.
\<close>

theorem submit_docker_job_env:
  "body_field
     (last (requests_of (events (snd (submit_docker_job c img cmd cpu mem gpu env' kw w)))))
     ''payload'' =
   Some (JDict [(''image'', JStr img), (''command'', JList (map JStr cmd)),
                (''env'', JList (map JStr (env_list env')))])
   \<and> env_list None = []"
  by (simp add: submit_docker_job_def submit_job_def make_request_requests submit_job_data_def
      body_field_def docker_payload_def env_list_def
      JobPayload_to_dict_def JobPayload_asdict_def not_None_def str_list_def)

text \<open>
  C5 at the inputs where the code leaves the specification: with \<open>min_cpu=0\<close>,
  \<open>min_memory=0\<close> and \<open>max_price=0\<close> passed, \<open>get_marketplace_offers\<close> sends an empty
  query; with \<open>min_cpu=2\<close> alone it sends \<open>min_cpu=2\<close> and nothing else.
\<close>

theorem marketplace_zero_dropped:
  "params (last (requests_of (events (snd
      (get_marketplace_offers example_client (Some 0) (Some 0) (Some 0) None (server []))))))
     = Some []
   \<and> params (last (requests_of (events (snd
      (get_marketplace_offers example_client (Some 2) None None None (server []))))))
     = Some [(''min_cpu'', JInt 2)]"
  by (simp add: get_marketplace_offers_def make_request_requests marketplace_params_def)

section \<open>Construction of the client\<close>

text \<open>
  C8. With no \<open>api_key\<close> argument and no \<open>COMPUTEHIVE_API_KEY\<close> in the environment, the
  constructor raises \<open>AuthenticationError\<close> and leaves the world as it was: no session is
  created, no adapter mounted, no header set.
\<close>

theorem init_missing_credential:
  "environ w ''COMPUTEHIVE_API_KEY'' = None \<Longrightarrow>
   ComputeHiveClient_init api_url' None timeout' max_retries w =
     (Inl (AuthenticationError
        [Text ''API key is required. Set COMPUTEHIVE_API_KEY environment variable or pass api_key parameter.'']), w)"
  by (simp add: ComputeHiveClient_init_def py_or_def getenv_def api_key_required_def)

theorem init_missing_credential_witness:
  "environ (server []) ''COMPUTEHIVE_API_KEY'' = None \<and>
   ComputeHiveClient_init None None 30 3 (server []) =
     (Inl (AuthenticationError
        [Text ''API key is required. Set COMPUTEHIVE_API_KEY environment variable or pass api_key parameter.'']), server [])
   \<and> events (server []) = []"
proof -
  have h: "environ (server []) ''COMPUTEHIVE_API_KEY'' = None" by (simp add: server_def)
  show ?thesis using h init_missing_credential [OF h, of None 30 3] by (simp add: server_def)
qed

text \<open>
  C9 as stated fails: an empty \<open>api_key\<close> passed explicitly does not make the constructor
  fail when the environment holds a key; \<open>api_key or os.getenv(...)\<close> then takes the
  environment's.
\<close>

theorem init_empty_key_counterexample:
  "fst (ComputeHiveClient_init None (Some []) 30 3 (with_env_key ''secret'')) =
     Inr \<lparr>api_url = ''https://api.computehive.io'', api_key = ''secret'',
          session = \<lparr>adapter = retry_strategy 3, headers = session_headers ''secret''\<rparr>,
          timeout = 30\<rparr>"
  by (simp add: ComputeHiveClient_init_def py_or_def getenv_def with_env_key_def or_str_def
      getenv_default_def)

text \<open>
  C9, amended. An empty \<open>api_key\<close> argument is treated exactly as an absent one; and when
  neither the argument nor \<open>COMPUTEHIVE_API_KEY\<close> holds a non-empty string (each absent
  or empty), the constructor raises \<open>AuthenticationError\<close> and leaves the world as it was.
\<close>

theorem init_empty_key:
  "ComputeHiveClient_init api_url' (Some []) timeout' max_retries w =
     ComputeHiveClient_init api_url' None timeout' max_retries w
   \<and> (\<not> truthy_str api_key' \<longrightarrow> \<not> truthy_str (environ w ''COMPUTEHIVE_API_KEY'') \<longrightarrow>
        ComputeHiveClient_init api_url' api_key' timeout' max_retries w =
          (Inl (AuthenticationError
             [Text ''API key is required. Set COMPUTEHIVE_API_KEY environment variable or pass api_key parameter.'']), w))"
  by (cases "environ w ''COMPUTEHIVE_API_KEY''")
     (simp_all add: ComputeHiveClient_init_def py_or_def getenv_def api_key_required_def)

theorem init_empty_key_witness:
  "\<not> truthy_str (Some []) \<and> \<not> truthy_str (environ (server []) ''COMPUTEHIVE_API_KEY'') \<and>
   ComputeHiveClient_init None (Some []) 30 3 (server []) =
     (Inl (AuthenticationError
        [Text ''API key is required. Set COMPUTEHIVE_API_KEY environment variable or pass api_key parameter.'']), server [])
   \<and> \<not> truthy_str None \<and> \<not> truthy_str (environ (with_env_key []) ''COMPUTEHIVE_API_KEY'') \<and>
   ComputeHiveClient_init None None 30 3 (with_env_key []) =
     (Inl (AuthenticationError
        [Text ''API key is required. Set COMPUTEHIVE_API_KEY environment variable or pass api_key parameter.'']), with_env_key [])"
  using init_empty_key [of None 30 3 "server []" "Some []"]
        init_empty_key [of None 30 3 "with_env_key []" None]
  by (simp add: server_def with_env_key_def ComputeHiveClient_init_def py_or_def getenv_def
      api_key_required_def)

section \<open>The polling loop\<close>

text \<open>A world written out field by field, so that two of them compare by their fields.\<close>

lemma clock_update_explicit:
  "clock_update f (w::world) =
     \<lparr>environ = environ w, clock = f (clock w), replies = replies w, events = events w\<rparr>"
  by simp

lemma replies_update_explicit:
  "replies_update f (w::world) =
     \<lparr>environ = environ w, clock = clock w, replies = f (replies w), events = events w\<rparr>"
  by simp

lemma events_update_explicit:
  "events_update f (w::world) =
     \<lparr>environ = environ w, clock = clock w, replies = replies w, events = f (events w)\<rparr>"
  by simp

lemmas world_explicit = clock_update_explicit replies_update_explicit events_update_explicit

lemma init_adapter:
  "ComputeHiveClient_init u k t n w0 = (Inr c, w1) \<Longrightarrow> adapter (session c) = retry_strategy n"
  by (auto simp: ComputeHiveClient_init_def split: option.splits if_splits)

lemma urlopen_not_retried:
  "\<not> is_retry retries m (status_code r) \<Longrightarrow>
   urlopen retries m k (r # rs) = (Inr r, [Exchange r], elapsed r, rs)"
  by simp

lemma is_retry_success: "success r \<Longrightarrow> \<not> is_retry (retry_strategy n) m (status_code r)"
  by (auto simp: is_retry_def retry_strategy_def success_def)

lemma raise_for_status_success: "success r \<Longrightarrow> raise_for_status r = Inr ()"
  by (simp add: raise_for_status_def success_def)

lemma make_request_success:
  assumes "adapter (session c) = retry_strategy n" and "replies w = r # rs" and "success r"
    and "response_json r = Some j"
  shows "make_request c m e d p w =
     (Inr j, \<lparr>environ = environ w, clock = clock w + elapsed r, replies = rs,
              events = events w @
                 [Request \<lparr>http_method = m, url = Text (api_url c) # e, json_body = d,
                           params = p, request_timeout = timeout c\<rparr>, Exchange r]\<rparr>)"
  using assms
  by (simp add: make_request_def session_request_def is_retry_success raise_for_status_success
      world_explicit)

lemma get_job_success:
  assumes "adapter (session c) = retry_strategy n" and "replies w = r # rs" and "success r"
    and "response_json r = Some j"
  shows "get_job c job_id w =
     (Inr j, \<lparr>environ = environ w, clock = clock w + elapsed r, replies = rs,
              events = events w @ [Request (get_job_request c job_id), Exchange r]\<rparr>)"
  using make_request_success [OF assms] by (simp add: get_job_def get_job_request_def)

lemma running_cases:
  assumes "running r"
  obtains j s where "success r" "response_json r = Some j" "py_get j ''status'' = Inr s"
    "s \<notin> set terminal"
  using assms by (auto simp: running_def status_of_def split: option.splits sum.splits)

lemma finished_cases:
  assumes "finished r"
  obtains j s where "success r" "response_json r = Some j" "py_get j ''status'' = Inr s"
    "s \<in> set terminal"
  using assms by (auto simp: finished_def status_of_def split: option.splits sum.splits)

lemma invoke_quiet:
  "quiet callback r \<Longrightarrow> response_json r = Some j \<Longrightarrow>
   invoke callback j w =
     (Inr (), \<lparr>environ = environ w, clock = clock w + callback_time callback r,
               replies = replies w,
               events = events w @ (case callback of None \<Rightarrow> [] | Some f \<Rightarrow> [Called j])\<rparr>)"
  by (auto simp: invoke_def quiet_def callback_time_def world_explicit
           split: option.splits prod.splits)

lemma wait_loop_round:
  assumes ad: "adapter (session c) = retry_strategy n" and rs: "replies w = r # rs"
    and run: "running r" and t: "clock w - s < of_int tmo" and p: "0 \<le> poll"
    and cb: "quiet cb r"
  shows "wait_loop c job_id tmo poll cb s w =
     wait_loop c job_id tmo poll cb s
       \<lparr>environ = environ w, clock = clock w + (probe_time cb r + of_int poll), replies = rs,
        events = events w @ round_events c job_id cb poll r\<rparr>"
proof -
  from run obtain j st where j: "success r" "response_json r = Some j"
    "py_get j ''status'' = Inr st" "st \<notin> set terminal"
    by (rule running_cases)
  show ?thesis
    using t p j
    by (subst wait_loop.simps)
       (simp add: get_job_success [OF ad rs j(1,2)] invoke_quiet [OF cb j(2)] sleep_def
          round_events_def probe_events_def probe_time_def add.assoc world_explicit
          split: option.splits)
qed

lemma rounds_time_nonneg:
  "\<forall>r\<in>set rs. 0 \<le> probe_time cb r \<Longrightarrow> 0 \<le> p \<Longrightarrow> 0 \<le> rounds_time p cb rs"
  by (induction rs) (simp_all add: rounds_time_def)

lemma wait_loop_rounds:
  assumes ad: "adapter (session c) = retry_strategy n" and p: "0 \<le> poll"
  shows "replies w = pre @ rest \<Longrightarrow>
     \<forall>r\<in>set pre. running r \<and> quiet cb r \<and> 0 \<le> probe_time cb r \<Longrightarrow>
     clock w - s + rounds_time poll cb pre < of_int tmo \<Longrightarrow>
     wait_loop c job_id tmo poll cb s w =
       wait_loop c job_id tmo poll cb s
         \<lparr>environ = environ w, clock = clock w + rounds_time poll cb pre, replies = rest,
          events = events w @ concat (map (round_events c job_id cb poll) pre)\<rparr>"
proof (induction pre arbitrary: w)
  case Nil
  then have "\<lparr>environ = environ w, clock = clock w, replies = rest, events = events w\<rparr> = w"
    by (cases w) simp
  then show ?case by (simp add: rounds_time_def)
next
  case (Cons r pre)
  let ?w = "\<lparr>environ = environ w, clock = clock w + (probe_time cb r + of_int poll),
          replies = pre @ rest, events = events w @ round_events c job_id cb poll r\<rparr>"
  have nn: "0 \<le> rounds_time poll cb pre"
    using Cons.prems(2) p by (intro rounds_time_nonneg) simp_all
  have el: "0 \<le> probe_time cb r" using Cons.prems(2) by simp
  have split: "rounds_time poll cb (r # pre) = probe_time cb r + of_int poll + rounds_time poll cb pre"
    by (simp add: rounds_time_def)
  have t: "clock w - s < of_int tmo"
    using Cons.prems(3) nn el p unfolding split by simp
  have "wait_loop c job_id tmo poll cb s w = wait_loop c job_id tmo poll cb s ?w"
    using Cons.prems by (intro wait_loop_round [OF ad _ _ t p]) simp_all
  also have "\<dots> = wait_loop c job_id tmo poll cb s
         \<lparr>environ = environ ?w, clock = clock ?w + rounds_time poll cb pre, replies = rest,
          events = events ?w @ concat (map (round_events c job_id cb poll) pre)\<rparr>"
    using Cons.prems unfolding split by (intro Cons.IH) simp_all
  finally show ?case by (simp add: split add.assoc)
qed


lemma wait_loop_finished:
  assumes ad: "adapter (session c) = retry_strategy n" and rs: "replies w = r # rs"
    and fin: "finished r" and job: "response_json r = Some job"
    and t: "clock w - s < of_int tmo" and cb: "quiet cb r"
  shows "wait_loop c job_id tmo poll cb s w =
     (Inr job, \<lparr>environ = environ w, clock = clock w + probe_time cb r, replies = rs,
                events = events w @ probe_events c job_id cb r\<rparr>)"
proof -
  from fin job obtain st where j: "success r" "py_get job ''status'' = Inr st" "st \<in> set terminal"
    by (auto elim: finished_cases)
  show ?thesis
    using t j job
    by (subst wait_loop.simps)
       (simp add: get_job_success [OF ad rs j(1) job] invoke_quiet [OF cb job]
          probe_events_def probe_time_def add.assoc world_explicit split: option.splits)
qed

lemma wait_loop_expired:
  "of_int tmo \<le> clock w - s \<Longrightarrow>
   wait_loop c job_id tmo poll cb s w = (Inl (job_timeout job_id tmo), w)"
  by (subst wait_loop.simps) simp

lemma wait_loop_timeout:
  assumes ad: "adapter (session c) = retry_strategy n" and p: "0 \<le> poll"
  shows "replies w = pre @ rest \<Longrightarrow>
     \<forall>r\<in>set pre. running r \<and> quiet cb r \<and> 0 \<le> probe_time cb r \<and> probe_time cb r \<le> L \<Longrightarrow>
     of_int tmo \<le> clock w - s + rounds_time poll cb pre \<Longrightarrow>
     \<exists>w'. wait_loop c job_id tmo poll cb s w = (Inl (job_timeout job_id tmo), w') \<and>
          of_int tmo \<le> clock w' - s \<and>
          clock w' - s \<le> max (clock w - s) (of_int tmo + of_int poll + L)"
proof (induction pre arbitrary: w)
  case Nil
  then have "of_int tmo \<le> clock w - s" by (simp add: rounds_time_def)
  then show ?case by (auto simp: wait_loop_expired)
next
  case (Cons r pre)
  show ?case
  proof (cases "of_int tmo \<le> clock w - s")
    case True
    then show ?thesis by (auto simp: wait_loop_expired)
  next
    case False
    let ?w = "\<lparr>environ = environ w, clock = clock w + (probe_time cb r + of_int poll),
          replies = pre @ rest, events = events w @ round_events c job_id cb poll r\<rparr>"
    have split: "rounds_time poll cb (r # pre) = probe_time cb r + of_int poll + rounds_time poll cb pre"
      by (simp add: rounds_time_def)
    from False have t: "clock w - s < of_int tmo" by simp
    have step: "wait_loop c job_id tmo poll cb s w = wait_loop c job_id tmo poll cb s ?w"
      using Cons.prems by (intro wait_loop_round [OF ad _ _ t p]) simp_all
    have "\<exists>w'. wait_loop c job_id tmo poll cb s ?w = (Inl (job_timeout job_id tmo), w') \<and>
          of_int tmo \<le> clock w' - s \<and>
          clock w' - s \<le> max (clock ?w - s) (of_int tmo + of_int poll + L)"
      using Cons.prems unfolding split by (intro Cons.IH) simp_all
    then obtain w' where w': "wait_loop c job_id tmo poll cb s ?w = (Inl (job_timeout job_id tmo), w')"
      "of_int tmo \<le> clock w' - s"
      "clock w' - s \<le> max (clock ?w - s) (of_int tmo + of_int poll + L)"
      by blast
    have "probe_time cb r \<le> L" using Cons.prems(2) by simp
    with t have "clock ?w - s \<le> of_int tmo + of_int poll + L" by simp
    with w'(3) have "clock w' - s \<le> max (clock w - s) (of_int tmo + of_int poll + L)" by simp
    with step w'(1,2) show ?thesis by auto
  qed
qed

lemma wait_loop_probe_error:
  "clock w - s < of_int tmo \<Longrightarrow> get_job c job_id w = (Inl e, w') \<Longrightarrow>
   wait_loop c job_id tmo poll cb s w = (Inl e, w')"
  by (subst wait_loop.simps) simp

lemma wait_loop_callback_error:
  assumes ad: "adapter (session c) = retry_strategy n" and rs: "replies w = r # rs"
    and ok: "success r" and job: "response_json r = Some job"
    and t: "clock w - s < of_int tmo" and cb: "f job = (d, Some e)"
  shows "wait_loop c job_id tmo poll (Some f) s w =
     (Inl e, \<lparr>environ = environ w, clock = clock w + elapsed r + d, replies = rs,
              events = events w @ [Request (get_job_request c job_id), Exchange r, Called job]\<rparr>)"
  using t cb
  by (subst wait_loop.simps)
     (simp add: get_job_success [OF ad rs ok job] invoke_def world_explicit)

text \<open>What the loop returns is a record with a terminal status.\<close>

lemma wait_loop_returns_terminal:
  "wait_loop c job_id tmo poll cb s w = (Inr job, w') \<Longrightarrow>
   \<exists>st. py_get job ''status'' = Inr st \<and> st \<in> set terminal"
proof (induction c job_id tmo poll cb s w rule: wait_loop.induct)
  case (1 c job_id tmo poll cb s w)
  from "1.prems" show ?case
    apply (subst (asm) wait_loop.simps)
    apply (auto split: if_splits prod.splits sum.splits simp: "1.IH")
    done
qed

lemma example_client_init:
  "ComputeHiveClient_init None (Some ''key'') 30 3 (server []) = (Inr example_client, created)"
  by (simp add: ComputeHiveClient_init_def py_or_def or_str_def getenv_default_def server_def
      example_client_def created_def)

text \<open>
  C2 as stated fails: the deadline is tested before every probe, so a terminal answer that
  comes too late is never fetched. With \<open>timeout=10\<close>, \<open>poll_interval=5\<close> and a server
  that answers running, running, completed, the call raises the job-timeout \<open>JobError\<close>
  after two rounds and the third answer is still unread.
\<close>

theorem wait_for_job_deadline_counterexample:
  "fst (wait_for_job example_client (JStr ''job-1'') 10 5 None
     (server [mock (job_record ''running''), mock (job_record ''running''),
              mock (job_record ''completed'')])) =
   Inl (job_timeout (JStr ''job-1'') 10)
   \<and> replies (snd (wait_for_job example_client (JStr ''job-1'') 10 5 None
     (server [mock (job_record ''running''), mock (job_record ''running''),
              mock (job_record ''completed'')]))) = [mock (job_record ''completed'')]"
  by (simp add: wait_for_job_def wait_loop.simps get_job_def make_request_def session_request_def
      is_retry_def retry_strategy_def example_client_def server_def mock_def job_record_def
      raise_for_status_def invoke_def sleep_def terminal_def)

text \<open>
  C2, amended. For a client built by the constructor: if the server answers the probes
  with running records and then a record with a terminal status, the rounds before it
  end before the deadline (\<open>rounds_time poll cb pre < timeout\<close>), \<open>poll_interval\<close> is not
  negative and the callback returns on these records, then \<open>wait_for_job\<close> returns that
  first terminal record; what it did is, in order, one \<open>get_job\<close> request and exchange,
  then the callback (when one is given), then the sleep, for each running answer, and for
  the terminal one the request, the exchange and the callback, and nothing after it: no
  further probe (the answers after it are unread) and no sleep. With no round before it
  (\<open>pre = []\<close>) the callback is still called once.
\<close>

theorem wait_for_job_terminal:
  assumes init: "ComputeHiveClient_init u k t n w0 = (Inr c, w1)"
    and script: "replies w = pre @ fin # rest"
    and pre: "\<forall>r\<in>set pre. running r \<and> quiet cb r \<and> 0 \<le> probe_time cb r"
    and fin: "finished fin" "response_json fin = Some job" "quiet cb fin"
    and deadline: "rounds_time poll cb pre < of_int tmo"
    and poll: "0 \<le> poll"
  shows "wait_for_job c job_id tmo poll cb w =
     (Inr job,
      \<lparr>environ = environ w,
       clock = clock w + rounds_time poll cb pre + probe_time cb fin,
       replies = rest,
       events = events w @ concat (map (round_events c job_id cb poll) pre)
                  @ probe_events c job_id cb fin\<rparr>)"
proof -
  note ad = init_adapter [OF init]
  let ?w = "\<lparr>environ = environ w, clock = clock w + rounds_time poll cb pre, replies = fin # rest,
          events = events w @ concat (map (round_events c job_id cb poll) pre)\<rparr>"
  have "wait_loop c job_id tmo poll cb (clock w) w = wait_loop c job_id tmo poll cb (clock w) ?w"
    using script pre deadline by (intro wait_loop_rounds [OF ad poll]) simp_all
  also have "\<dots> = (Inr job, \<lparr>environ = environ ?w, clock = clock ?w + probe_time cb fin, replies = rest,
                events = events ?w @ probe_events c job_id cb fin\<rparr>)"
    using deadline fin by (intro wait_loop_finished [OF ad]) simp_all
  finally show ?thesis by (simp add: wait_for_job_def)
qed

theorem wait_for_job_terminal_witness:
  "wait_for_job example_client (JStr ''job-1'') 3600 0 (Some observer)
     (server [mock (job_record ''running''), mock (job_record ''running''),
              mock (job_record ''completed''), mock (job_record ''completed'')]) =
   (Inr (job_record ''completed''),
    \<lparr>environ = environ (server []), clock = 0,
     replies = [mock (job_record ''completed'')],
     events =
       [Request (get_job_request example_client (JStr ''job-1'')),
        Exchange (mock (job_record ''running'')), Called (job_record ''running''), Slept 0,
        Request (get_job_request example_client (JStr ''job-1'')),
        Exchange (mock (job_record ''running'')), Called (job_record ''running''), Slept 0,
        Request (get_job_request example_client (JStr ''job-1'')),
        Exchange (mock (job_record ''completed'')), Called (job_record ''completed'')]\<rparr>)"
proof -
  let ?run = "mock (job_record ''running'')" and ?done = "mock (job_record ''completed'')"
  have 1: "replies (server [?run, ?run, ?done, ?done]) = [?run, ?run] @ ?done # [?done]"
    by (simp add: server_def)
  have 2: "\<forall>r\<in>set [?run, ?run].
      running r \<and> quiet (Some observer) r \<and> 0 \<le> probe_time (Some observer) r"
    by (simp add: running_def success_def status_of_def mock_def job_record_def terminal_def
        quiet_def observer_def probe_time_def callback_time_def)
  have 3: "finished ?done" "response_json ?done = Some (job_record ''completed'')"
    "quiet (Some observer) ?done"
    by (simp_all add: finished_def success_def status_of_def mock_def job_record_def terminal_def
        quiet_def observer_def)
  have 4: "rounds_time 0 (Some observer) [?run, ?run] < of_int 3600"
    by (simp add: rounds_time_def probe_time_def callback_time_def observer_def mock_def)
  show ?thesis
    using wait_for_job_terminal [OF example_client_init 1 2 3 4, of "JStr ''job-1''"]
    by (simp add: rounds_time_def probe_time_def callback_time_def observer_def round_events_def
        probe_events_def mock_def server_def)
qed

text \<open>
  C6 as stated fails in its bound: the time a probe takes is not limited by the loop. With
  \<open>timeout=10\<close>, \<open>poll_interval=5\<close> and a probe that takes 60 seconds, the job-timeout
  \<open>JobError\<close> comes 65 seconds after the start, later than \<open>timeout + poll_interval\<close>.
\<close>

theorem wait_for_job_slow_probe_counterexample:
  "fst (wait_for_job example_client (JStr ''job-1'') 10 5 None
          (server [slow 60 (job_record ''running'')])) =
     Inl (job_timeout (JStr ''job-1'') 10)
   \<and> clock (snd (wait_for_job example_client (JStr ''job-1'') 10 5 None
          (server [slow 60 (job_record ''running'')])))
       - clock (server [slow 60 (job_record ''running'')]) = 65
   \<and> \<not> (65 \<le> (10::real) + 5)"
  by (simp add: wait_for_job_def wait_loop.simps get_job_def make_request_def session_request_def
      is_retry_def retry_strategy_def example_client_def server_def slow_def job_record_def
      raise_for_status_def invoke_def sleep_def terminal_def)

text \<open>
  C6, amended. For a client built by the constructor, a \<open>poll_interval\<close> that is not
  negative, and a server whose first answers \<open>pre\<close> are running records on which the
  callback returns, each probe (the exchange and the call of the callback) taking between
  0 and \<open>L\<close> seconds:
  \<^item> if the rounds over \<open>pre\<close> reach the timeout, \<open>wait_for_job\<close> raises the job-timeout
    \<open>JobError\<close>, no sooner than \<open>timeout\<close> after its start and no later than
    \<open>timeout + poll_interval + L\<close> (so within \<open>timeout + poll_interval\<close> when the
    probes take no time, as those of a mock do);
  \<^item> if they end before the timeout and the next \<open>get_job\<close> raises, \<open>wait_for_job\<close>
    raises that same error and leaves the world as the probe left it;
  \<^item> if they end before the timeout and the callback raises on the next record,
    \<open>wait_for_job\<close> raises that same error, right after the call.
\<close>

theorem wait_for_job_timeout_and_errors:
  assumes init: "ComputeHiveClient_init u k t n w0 = (Inr c, w1)"
    and script: "replies w = pre @ rest"
    and pre: "\<forall>r\<in>set pre. running r \<and> quiet cb r \<and> 0 \<le> probe_time cb r \<and> probe_time cb r \<le> L"
    and poll: "0 \<le> poll"
  shows
    "(of_int tmo \<le> rounds_time poll cb pre \<longrightarrow>
        (\<exists>w'. wait_for_job c job_id tmo poll cb w = (Inl (job_timeout job_id tmo), w') \<and>
              of_int tmo \<le> clock w' - clock w \<and>
              clock w' - clock w \<le> max 0 (of_int tmo + of_int poll + L)))
     \<and> (rounds_time poll cb pre < of_int tmo \<longrightarrow>
        (\<forall>e w'.
           get_job c job_id
             \<lparr>environ = environ w, clock = clock w + rounds_time poll cb pre, replies = rest,
              events = events w @ concat (map (round_events c job_id cb poll) pre)\<rparr> = (Inl e, w')
           \<longrightarrow> wait_for_job c job_id tmo poll cb w = (Inl e, w'))
        \<and> (\<forall>r rs f job d e.
           rest = r # rs \<and> success r \<and> response_json r = Some job \<and> cb = Some f \<and>
           f job = (d, Some e)
           \<longrightarrow> wait_for_job c job_id tmo poll cb w =
                 (Inl e,
                  \<lparr>environ = environ w,
                   clock = clock w + rounds_time poll cb pre + elapsed r + d,
                   replies = rs,
                   events = events w @ concat (map (round_events c job_id cb poll) pre)
                     @ [Request (get_job_request c job_id), Exchange r, Called job]\<rparr>)))"
proof -
  note ad = init_adapter [OF init]
  let ?w = "\<lparr>environ = environ w, clock = clock w + rounds_time poll cb pre, replies = rest,
          events = events w @ concat (map (round_events c job_id cb poll) pre)\<rparr>"
  have a: "\<exists>w'. wait_for_job c job_id tmo poll cb w = (Inl (job_timeout job_id tmo), w') \<and>
              of_int tmo \<le> clock w' - clock w \<and>
              clock w' - clock w \<le> max 0 (of_int tmo + of_int poll + L)"
    if "of_int tmo \<le> rounds_time poll cb pre"
    using wait_loop_timeout [OF ad poll script pre, of tmo "clock w" job_id] that
    by (simp add: wait_for_job_def)
  have unroll: "wait_for_job c job_id tmo poll cb w = wait_loop c job_id tmo poll cb (clock w) ?w"
    if "rounds_time poll cb pre < of_int tmo"
    unfolding wait_for_job_def using script pre that
    by (intro wait_loop_rounds [OF ad poll]) simp_all
  have b: "wait_for_job c job_id tmo poll cb w = (Inl e, w')"
    if "rounds_time poll cb pre < of_int tmo" "get_job c job_id ?w = (Inl e, w')" for e w'
    using that by (simp add: unroll wait_loop_probe_error)
  have c: "wait_for_job c job_id tmo poll cb w =
                 (Inl e,
                  \<lparr>environ = environ w,
                   clock = clock w + rounds_time poll cb pre + elapsed r + d,
                   replies = rs,
                   events = events w @ concat (map (round_events c job_id cb poll) pre)
                     @ [Request (get_job_request c job_id), Exchange r, Called job]\<rparr>)"
    if "rounds_time poll cb pre < of_int tmo" "rest = r # rs" "success r" "response_json r = Some job"
      "cb = Some f" "f job = (d, Some e)" for r rs f job d e
  proof -
    have u: "wait_for_job c job_id tmo poll cb w = wait_loop c job_id tmo poll cb (clock w) ?w"
      by (rule unroll [OF that(1)])
    have "wait_loop c job_id tmo poll (Some f) (clock w) ?w =
        (Inl e, \<lparr>environ = environ ?w, clock = clock ?w + elapsed r + d, replies = rs,
              events = events ?w @ [Request (get_job_request c job_id), Exchange r, Called job]\<rparr>)"
      using that by (intro wait_loop_callback_error [OF ad]) simp_all
    then show ?thesis unfolding u using that(2,5) by simp
  qed
  show ?thesis using a b c by blast
qed

theorem wait_for_job_timeout_and_errors_witness:
  "fst (wait_for_job example_client (JStr ''job-1'') 10 5 None
          (server [mock (job_record ''running''), mock (job_record ''running'')])) =
     Inl (job_timeout (JStr ''job-1'') 10)
   \<and> 10 \<le> clock (snd (wait_for_job example_client (JStr ''job-1'') 10 5 None
          (server [mock (job_record ''running''), mock (job_record ''running'')])))
   \<and> clock (snd (wait_for_job example_client (JStr ''job-1'') 10 5 None
          (server [mock (job_record ''running''), mock (job_record ''running'')]))) \<le> 15
   \<and> fst (wait_for_job example_client (JStr ''job-1'') 3600 5 None
          (server [mock (job_record ''running''), not_found])) =
     Inl (ComputeHiveError [Text ''API request failed: '', Exc (HTTPError not_found)])
   \<and> fst (wait_for_job example_client (JStr ''job-1'') 3600 5 (Some raiser)
          (server [mock (job_record ''running'')])) =
     Inl (Other ''boom'')"
proof -
  let ?run = "mock (job_record ''running'')"
  have s1: "replies (server [?run, ?run]) = [?run, ?run] @ []" by (simp add: server_def)
  have p1: "\<forall>r\<in>set [?run, ?run].
      running r \<and> quiet None r \<and> 0 \<le> probe_time None r \<and> probe_time None r \<le> 0"
    by (simp add: running_def success_def status_of_def mock_def job_record_def terminal_def
        quiet_def probe_time_def callback_time_def)
  have s2: "replies (server [?run, not_found]) = [?run] @ [not_found]" by (simp add: server_def)
  have p2: "\<forall>r\<in>set [?run].
      running r \<and> quiet None r \<and> 0 \<le> probe_time None r \<and> probe_time None r \<le> 0"
    by (simp add: running_def success_def status_of_def mock_def job_record_def terminal_def
        quiet_def probe_time_def callback_time_def)
  have s3: "replies (server [?run]) = [] @ [?run]" by (simp add: server_def)
  have p3: "\<forall>r\<in>set []. running r \<and> quiet (Some raiser) r \<and>
      0 \<le> probe_time (Some raiser) r \<and> probe_time (Some raiser) r \<le> 0"
    by simp
  have g: "get_job example_client (JStr ''job-1'')
             \<lparr>environ = environ (server [?run, not_found]),
              clock = clock (server [?run, not_found]) + rounds_time 5 None [?run],
              replies = [not_found],
              events = events (server [?run, not_found]) @
                concat (map (round_events example_client (JStr ''job-1'') None 5) [?run])\<rparr> =
           (Inl (ComputeHiveError [Text ''API request failed: '', Exc (HTTPError not_found)]),
            \<lparr>environ = environ (server []), clock = 5, replies = [],
             events = round_events example_client (JStr ''job-1'') None 5 ?run @
               [Request (get_job_request example_client (JStr ''job-1'')), Exchange not_found]\<rparr>)"
    by (simp add: get_job_def make_request_def session_request_def is_retry_def
        retry_strategy_def example_client_def server_def mock_def not_found_def
        raise_for_status_def rounds_time_def probe_time_def callback_time_def
        get_job_request_def world_explicit)
  have a: "of_int 10 \<le> rounds_time 5 None [?run, ?run]"
    by (simp add: rounds_time_def probe_time_def callback_time_def mock_def)
  have b: "rounds_time 5 None [?run] < of_int 3600"
    by (simp add: rounds_time_def probe_time_def callback_time_def mock_def)
  have c: "rounds_time 5 (Some raiser) [] < of_int 3600" by (simp add: rounds_time_def)
  have r: "success ?run" "response_json ?run = Some (job_record ''running'')"
    "raiser (job_record ''running'') = (0, Some (Other ''boom''))"
    by (simp_all add: success_def mock_def raiser_def)
  from wait_for_job_timeout_and_errors [OF example_client_init s1 p1, of 5 10 "JStr ''job-1''"] a
  have 1: "fst (wait_for_job example_client (JStr ''job-1'') 10 5 None (server [?run, ?run])) =
     Inl (job_timeout (JStr ''job-1'') 10)"
    "10 \<le> clock (snd (wait_for_job example_client (JStr ''job-1'') 10 5 None (server [?run, ?run])))"
    "clock (snd (wait_for_job example_client (JStr ''job-1'') 10 5 None (server [?run, ?run]))) \<le> 15"
    by (auto simp: server_def)
  from wait_for_job_timeout_and_errors [OF example_client_init s2 p2, of 5 3600 "JStr ''job-1''"] b g
  have 2: "fst (wait_for_job example_client (JStr ''job-1'') 3600 5 None (server [?run, not_found])) =
     Inl (ComputeHiveError [Text ''API request failed: '', Exc (HTTPError not_found)])"
    by auto
  from wait_for_job_timeout_and_errors [OF example_client_init s3 p3, of 5 3600 "JStr ''job-1''"] c r
  have 3: "fst (wait_for_job example_client (JStr ''job-1'') 3600 5 (Some raiser) (server [?run])) =
     Inl (Other ''boom'')"
    by auto
  from 1 2 3 show ?thesis by simp
qed

section \<open>\<open>quick_run_docker\<close>\<close>

lemma py_getitem_terminal:
  "py_get job k = Inr st \<Longrightarrow> st \<in> set terminal \<Longrightarrow> py_getitem job k = Inr st"
  by (cases job) (auto simp: terminal_def split: option.splits)

lemma wait_for_job_returns_terminal:
  "wait_for_job c job_id tmo poll cb w = (Inr job, w') \<Longrightarrow>
   \<exists>st. py_getitem job ''status'' = Inr st \<and> st \<in> set terminal"
  unfolding wait_for_job_def
  by (drule wait_loop_returns_terminal) (auto dest: py_getitem_terminal)

lemma create_client_events:
  "create_client k w = (Inr c, w0) \<Longrightarrow> requests_of (events w0) = requests_of (events w)"
  by (auto simp: create_client_def ComputeHiveClient_init_def requests_of_append
      split: option.splits if_splits)

lemma submit_docker_job_requests:
  "map http_method (requests_of (events (snd (submit_docker_job c img cmd cpu mem gpu e kw w)))) =
   map http_method (requests_of (events w)) @ [''POST'']"
  by (simp add: submit_docker_job_def submit_job_def make_request_requests)

lemma create_example_client:
  "create_client (Some ''key'') (server rs) =
     (Inr example_client,
      \<lparr>environ = environ (server []), clock = 0, replies = rs, events = events created\<rparr>)"
  by (simp add: create_client_def ComputeHiveClient_init_def py_or_def or_str_def
      getenv_default_def server_def example_client_def created_def)

text \<open>
  C4. Once the client is built and the job submitted (\<open>job\<close> is the record the server
  returned):
  \<^item> with \<open>wait=False\<close>, \<open>quick_run_docker\<close> returns that record and the world as the
    submission left it: the POST is the only request made, nothing is polled;
  \<^item> with \<open>wait=True\<close>, when \<open>wait_for_job\<close> (default timeout 3600 and interval 5, no
    callback) returns a record, its status is terminal; if it is \<open>completed\<close> the outcome
    is exactly that of \<open>get_job_result\<close> for the job's id (the result record, not the job
    record), otherwise it is a \<open>JobError\<close> whose message carries that status.
\<close>

theorem quick_run_docker_result:
  assumes client: "create_client api_key' w = (Inr c, w0)"
    and submit: "submit_docker_job c img cmd (dflt 1 (kw_cpu_cores kw)) (dflt 1024 (kw_memory_mb kw))
                   (dflt 0 (kw_gpu_count kw)) (kw_env kw) (kw_more kw) w0 = (Inr job, w1)"
  shows
    "(\<not> wait \<longrightarrow>
        quick_run_docker img cmd api_key' wait kw w = (Inr job, w1) \<and>
        map http_method (requests_of (events w1)) =
          map http_method (requests_of (events w)) @ [''POST''])
     \<and> (wait \<longrightarrow>
        (\<forall>job_id result w3.
           py_getitem job ''id'' = Inr job_id \<and>
           wait_for_job c job_id 3600 5 None
             (print [Text ''Job '', Val job_id, Text '' submitted, waiting for completion...''] w1)
             = (Inr result, w3)
           \<longrightarrow> (\<exists>st. py_getitem result ''status'' = Inr st \<and> st \<in> set terminal \<and>
                  quick_run_docker img cmd api_key' wait kw w =
                    (if st = JStr ''completed'' then get_job_result c job_id w3
                     else (Inl (JobError [Text ''Job failed with status: '', Val st]), w3)))))"
proof -
  have a: "quick_run_docker img cmd api_key' wait kw w = (Inr job, w1)" if "\<not> wait"
    using that client submit by (simp add: quick_run_docker_def)
  have b: "map http_method (requests_of (events w1)) =
          map http_method (requests_of (events w)) @ [''POST'']"
    using submit_docker_job_requests [of c img cmd "dflt 1 (kw_cpu_cores kw)"
        "dflt 1024 (kw_memory_mb kw)" "dflt 0 (kw_gpu_count kw)" "kw_env kw" "kw_more kw" w0]
      create_client_events [OF client] submit
    by simp
  have c: "\<exists>st. py_getitem result ''status'' = Inr st \<and> st \<in> set terminal \<and>
                  quick_run_docker img cmd api_key' wait kw w =
                    (if st = JStr ''completed'' then get_job_result c job_id w3
                     else (Inl (JobError [Text ''Job failed with status: '', Val st]), w3))"
    if "wait" "py_getitem job ''id'' = Inr job_id"
      "wait_for_job c job_id 3600 5 None
             (print [Text ''Job '', Val job_id, Text '' submitted, waiting for completion...''] w1)
             = (Inr result, w3)" for job_id result w3
  proof -
    from wait_for_job_returns_terminal [OF that(3)]
    obtain st where st: "py_getitem result ''status'' = Inr st" "st \<in> set terminal" by blast
    have "quick_run_docker img cmd api_key' wait kw w =
                    (if st = JStr ''completed'' then get_job_result c job_id w3
                     else (Inl (JobError [Text ''Job failed with status: '', Val st]), w3))"
      using that client submit st by (simp add: quick_run_docker_def)
    with st show ?thesis by blast
  qed
  show ?thesis using a b c by blast
qed

theorem quick_run_docker_result_witness:
  "quick_run_docker ''img'' [''echo'', ''hi''] (Some ''key'') True no_docker_kwargs
     (server [mock (job_record ''pending''), mock (job_record ''completed''), mock result_record]) =
   get_job_result example_client (JStr ''job-1'')
     (snd (wait_for_job example_client (JStr ''job-1'') 3600 5 None
        (print [Text ''Job '', Val (JStr ''job-1''), Text '' submitted, waiting for completion...'']
           (snd (submit_docker_job example_client ''img'' [''echo'', ''hi''] 1 1024 0 None no_kwargs
              \<lparr>environ = environ (server []), clock = 0,
               replies = [mock (job_record ''pending''), mock (job_record ''completed''),
                          mock result_record],
               events = events created\<rparr>)))))
   \<and> fst (quick_run_docker ''img'' [''echo'', ''hi''] (Some ''key'') True no_docker_kwargs
     (server [mock (job_record ''pending''), mock (job_record ''completed''), mock result_record])) =
     Inr result_record
   \<and> fst (quick_run_docker ''img'' [''echo'', ''hi''] (Some ''key'') True no_docker_kwargs
     (server [mock (job_record ''pending''), mock (job_record ''failed''), mock result_record])) =
     Inl (JobError [Text ''Job failed with status: '', Val (JStr ''failed'')])
   \<and> fst (quick_run_docker ''img'' [''echo'', ''hi''] (Some ''key'') False no_docker_kwargs
     (server [mock (job_record ''pending''), mock (job_record ''completed''), mock result_record])) =
     Inr (job_record ''pending'')
   \<and> replies (snd (quick_run_docker ''img'' [''echo'', ''hi''] (Some ''key'') False no_docker_kwargs
     (server [mock (job_record ''pending''), mock (job_record ''completed''), mock result_record]))) =
     [mock (job_record ''completed''), mock result_record]"
proof -
  let ?p = "mock (job_record ''pending'')" and ?c = "mock (job_record ''completed'')"
  let ?f = "mock (job_record ''failed'')" and ?r = "mock result_record"
  let ?w0 = "\<lambda>rs. \<lparr>environ = environ (server []), clock = 0, replies = rs, events = events created\<rparr>"
  let ?post = "Request \<lparr>http_method = ''POST'',
       url = [Text (api_url example_client), Text ''/api/v1/jobs''],
       json_body = Some (JDict (submit_job_data DOCKER (docker_requirements 1 1024 0)
          (docker_payload ''img'' [''echo'', ''hi''] None) 5 3600 3 None)),
       params = None, request_timeout = timeout example_client\<rparr>"
  let ?w1 = "\<lambda>rs. \<lparr>environ = environ (server []), clock = 0, replies = rs,
       events = events created @ [?post, Exchange ?p]\<rparr>"
  let ?w2 = "\<lambda>rs. \<lparr>environ = environ (server []), clock = 0, replies = rs,
       events = events created @ [?post, Exchange ?p,
         Printed [Text ''Job '', Val (JStr ''job-1''), Text '' submitted, waiting for completion...'']]\<rparr>"
  have kw: "dflt 1 (kw_cpu_cores no_docker_kwargs) = 1" "dflt 1024 (kw_memory_mb no_docker_kwargs) = 1024"
    "dflt 0 (kw_gpu_count no_docker_kwargs) = 0" "kw_env no_docker_kwargs = None"
    "kw_more no_docker_kwargs = no_kwargs"
    by (simp_all add: no_docker_kwargs_def)
  have ad: "adapter (session example_client) = retry_strategy 3" by (simp add: example_client_def)
  have ok: "success ?p" "response_json ?p = Some (job_record ''pending'')"
    by (simp_all add: success_def mock_def)
  have submit: "submit_docker_job example_client ''img'' [''echo'', ''hi''] 1 1024 0 None no_kwargs
        (?w0 (?p # rs)) = (Inr (job_record ''pending''), ?w1 rs)" for rs
    using make_request_success [OF ad _ ok, of "?w0 (?p # rs)" rs]
    by (simp add: submit_docker_job_def submit_job_def no_kwargs_def mock_def)
  have id: "py_getitem (job_record ''pending'') ''id'' = Inr (JStr ''job-1'')"
    by (simp add: job_record_def)
  have pr: "print [Text ''Job '', Val (JStr ''job-1''), Text '' submitted, waiting for completion...'']
        (?w1 rs) = ?w2 rs" for rs
    by (simp add: print_def world_explicit)
  have fin: "finished ?c" "response_json ?c = Some (job_record ''completed'')" "quiet None ?c"
    "finished ?f" "response_json ?f = Some (job_record ''failed'')" "quiet None ?f"
    by (simp_all add: finished_def success_def status_of_def mock_def job_record_def terminal_def
        quiet_def)
  have wait_c: "wait_for_job example_client (JStr ''job-1'') 3600 5 None (?w2 [?c, ?r]) =
      (Inr (job_record ''completed''),
       \<lparr>environ = environ (server []), clock = 0, replies = [?r],
        events = events (?w2 []) @ probe_events example_client (JStr ''job-1'') None ?c\<rparr>)"
    using wait_loop_finished [OF ad _ fin(1,2) _ fin(3), of "?w2 [?c, ?r]" "[?r]" 0 3600]
    by (simp add: wait_for_job_def probe_time_def callback_time_def mock_def)
  have wait_f: "wait_for_job example_client (JStr ''job-1'') 3600 5 None (?w2 [?f, ?r]) =
      (Inr (job_record ''failed''),
       \<lparr>environ = environ (server []), clock = 0, replies = [?r],
        events = events (?w2 []) @ probe_events example_client (JStr ''job-1'') None ?f\<rparr>)"
    using wait_loop_finished [OF ad _ fin(4,5) _ fin(6), of "?w2 [?f, ?r]" "[?r]" 0 3600]
    by (simp add: wait_for_job_def probe_time_def callback_time_def mock_def)
  have res: "success ?r" "response_json ?r = Some result_record"
    by (simp_all add: success_def mock_def)
  have result: "fst (get_job_result example_client (JStr ''job-1'')
       \<lparr>environ = environ (server []), clock = 0, replies = [?r],
        events = events (?w2 []) @ probe_events example_client (JStr ''job-1'') None ?c\<rparr>) =
      Inr result_record"
    using make_request_success [OF ad _ res, of
        "\<lparr>environ = environ (server []), clock = 0, replies = [?r],
          events = events (?w2 []) @ probe_events example_client (JStr ''job-1'') None ?c\<rparr>" "[]"]
    by (simp add: get_job_result_def)
  note inst = quick_run_docker_result [OF create_example_client, where kw = no_docker_kwargs, unfolded kw, OF submit]
  have st: "py_getitem (job_record ''completed'') ''status'' = Inr (JStr ''completed'')"
    "py_getitem (job_record ''failed'') ''status'' = Inr (JStr ''failed'')"
    by (simp_all add: job_record_def)
  have 1: "quick_run_docker ''img'' [''echo'', ''hi''] (Some ''key'') True no_docker_kwargs
     (server [?p, ?c, ?r]) =
     get_job_result example_client (JStr ''job-1'')
       \<lparr>environ = environ (server []), clock = 0, replies = [?r],
        events = events (?w2 []) @ probe_events example_client (JStr ''job-1'') None ?c\<rparr>"
    using inst [of True "[?c, ?r]"] id wait_c st by (auto simp: pr)
  have 2: "fst (quick_run_docker ''img'' [''echo'', ''hi''] (Some ''key'') True no_docker_kwargs
     (server [?p, ?f, ?r])) =
     Inl (JobError [Text ''Job failed with status: '', Val (JStr ''failed'')])"
    using inst [of True "[?f, ?r]"] id wait_f st by (auto simp: pr)
  have 3: "quick_run_docker ''img'' [''echo'', ''hi''] (Some ''key'') False no_docker_kwargs
     (server [?p, ?c, ?r]) = (Inr (job_record ''pending''), ?w1 [?c, ?r])"
    using inst [of False "[?c, ?r]"] by simp
  show ?thesis
    using 1 2 3 result by (simp add: submit wait_c pr)
qed

section \<open>Transport: retries and the classification of errors\<close>

lemma exchanges_of_append: "exchanges_of (xs @ ys) = exchanges_of xs @ exchanges_of ys"
  by (induction xs rule: exchanges_of.induct) simp_all

lemma exchanges_of_sleep_backoff: "exchanges_of (sleep_backoff retries n) = []"
  by (simp add: sleep_backoff_def)

lemma increment_simps:
  "status_forcelist (increment retries) = status_forcelist retries"
  "total' (increment retries) = total' retries - 1"
  "get_backoff_time (increment retries) = get_backoff_time retries"
  "is_retry (increment retries) = is_retry retries"
  by (auto simp: increment_def get_backoff_time_def is_retry_def fun_eq_iff)

lemma backoff_total_Suc:
  "backoff_total retries h (Suc k) = get_backoff_time retries (Suc h) + backoff_total retries (Suc h) k"
proof -
  have "[Suc h..<Suc h + Suc k] = Suc h # [Suc (Suc h)..<Suc (Suc h) + k]"
    by (subst upt_conv_Cons) simp_all
  then show ?thesis unfolding backoff_total_def by (simp only: list.map sum_list.Cons)
qed

lemma backoff_total_increment:
  "backoff_total (increment retries) = backoff_total retries"
  by (simp add: backoff_total_def increment_simps fun_eq_iff)

lemma urlopen_retry_success:
  assumes m: "m \<in> set DEFAULT_ALLOWED_METHODS"
  shows "\<forall>r\<in>set bad. status_code r \<in> set (status_forcelist retries) \<Longrightarrow>
     int (length bad) \<le> total' retries \<Longrightarrow>
     status_code good \<notin> set (status_forcelist retries) \<Longrightarrow>
     \<exists>evs. urlopen retries m h (bad @ good # rest) =
        (Inr good, evs,
         sum_list (map elapsed bad) + elapsed good + backoff_total retries h (length bad), rest)
       \<and> exchanges_of evs = bad @ [good]"
proof (induction bad arbitrary: retries h)
  case Nil
  then show ?case by (simp add: is_retry_def backoff_total_def)
next
  case (Cons r bad)
  have retry: "is_retry retries m (status_code r)"
    using m Cons.prems(1) by (simp add: is_retry_def)
  have left: "\<not> is_exhausted (increment retries)"
    using Cons.prems(2) by (simp add: is_exhausted_def increment_simps)
  have "\<exists>evs. urlopen (increment retries) m (Suc h) (bad @ good # rest) =
        (Inr good, evs,
         sum_list (map elapsed bad) + elapsed good
           + backoff_total (increment retries) (Suc h) (length bad), rest)
       \<and> exchanges_of evs = bad @ [good]"
    using Cons.prems by (intro Cons.IH) (simp_all add: increment_simps)
  then obtain evs where evs: "urlopen (increment retries) m (Suc h) (bad @ good # rest) =
        (Inr good, evs,
         sum_list (map elapsed bad) + elapsed good + backoff_total retries (Suc h) (length bad), rest)"
    "exchanges_of evs = bad @ [good]"
    by (auto simp: backoff_total_increment)
  show ?case
    using retry left evs
    by (simp add: backoff_total_Suc exchanges_of_append exchanges_of_sleep_backoff)
qed

lemma urlopen_retry_exhausted:
  assumes m: "m \<in> set DEFAULT_ALLOWED_METHODS"
  shows "\<forall>r\<in>set bad. status_code r \<in> set (status_forcelist retries) \<Longrightarrow>
     int (length bad) = total' retries + 1 \<Longrightarrow> 0 \<le> total' retries \<Longrightarrow>
     \<exists>evs t. urlopen retries m h (bad @ rest) = (Inl RetryError, evs, t, rest)
       \<and> exchanges_of evs = bad"
proof (induction bad arbitrary: retries h)
  case Nil
  then show ?case by simp
next
  case (Cons r bad)
  have retry: "is_retry retries m (status_code r)"
    using m Cons.prems(1) by (simp add: is_retry_def)
  show ?case
  proof (cases "total' retries = 0")
    case True
    with Cons.prems(2) have "bad = []" by simp
    with True retry show ?thesis by (simp add: is_exhausted_def increment_simps)
  next
    case False
    with Cons.prems(3) have left: "\<not> is_exhausted (increment retries)"
      by (simp add: is_exhausted_def increment_simps)
    have "\<exists>evs t. urlopen (increment retries) m (Suc h) (bad @ rest) = (Inl RetryError, evs, t, rest)
       \<and> exchanges_of evs = bad"
      using Cons.prems False by (intro Cons.IH) (simp_all add: increment_simps)
    then obtain evs t where "urlopen (increment retries) m (Suc h) (bad @ rest) =
        (Inl RetryError, evs, t, rest)" "exchanges_of evs = bad"
      by blast
    with retry left show ?thesis
      by (simp add: exchanges_of_append exchanges_of_sleep_backoff)
  qed
qed


lemma retry_strategy_simps:
  "status_forcelist (retry_strategy n) = [429, 500, 502, 503, 504]"
  "total' (retry_strategy n) = n" "backoff_factor (retry_strategy n) = 1"
  by (simp_all add: retry_strategy_def)

lemma transient_raises: "transient r \<Longrightarrow> raise_for_status r = Inl (HTTPError r)"
  by (auto simp: transient_def raise_for_status_def)

lemma transient_handled:
  "transient r \<Longrightarrow>
   handle_exception (HTTPError r) = ComputeHiveError [Text ''API request failed: '', Exc (HTTPError r)]"
  by (auto simp: transient_def)

lemma example_backoff: "backoff_total (adapter (session example_client)) 0 (Suc (Suc 0)) = 2"
  by (simp add: backoff_total_Suc get_backoff_time_def example_client_def retry_strategy_def)
     (simp add: backoff_total_def)

text \<open>
  C3 as stated fails twice. A GET that is answered 503 on all four attempts of a client
  with \<open>max_retries=3\<close> ends in the adapter's \<open>RetryError\<close>, which \<open>_make_request\<close>
  reports through its second \<open>except\<close> clause as \<open>Network error\<close>, not as
  \<open>API request failed\<close>. And a POST (\<open>submit_job\<close>) is not retried at all: answered 503,
  503, 200 it makes one exchange and fails with \<open>API request failed\<close>.
\<close>

theorem make_request_retry_counterexample:
  "fst (get_job example_client (JStr ''job-1'')
          (server [unavailable, unavailable, unavailable, unavailable])) =
     Inl (ComputeHiveError [Text ''Network error: '', Exc RetryError])
   \<and> fst (submit_docker_job example_client ''alpine'' [''echo'', ''ok''] 2 512 0 None no_kwargs
          (server [unavailable, unavailable, mock (job_record ''pending'')])) =
     Inl (ComputeHiveError [Text ''API request failed: '', Exc (HTTPError unavailable)])
   \<and> exchanges_of (events (snd
        (submit_docker_job example_client ''alpine'' [''echo'', ''ok''] 2 512 0 None no_kwargs
          (server [unavailable, unavailable, mock (job_record ''pending'')])))) = [unavailable]"
  by (simp add: get_job_def submit_docker_job_def submit_job_def make_request_def
      session_request_def is_retry_def is_exhausted_def increment_def retry_strategy_def
      DEFAULT_ALLOWED_METHODS_def example_client_def server_def unavailable_def
      raise_for_status_def sleep_backoff_def get_backoff_time_def)

text \<open>
  C3, amended. For a client built by the constructor with \<open>max_retries = n\<close>, whose retry
  policy has backoff factor 1:
  \<^item> a request with an idempotent method (the client's GETs) that is answered by at most
    \<open>n\<close> transient statuses and then a 2xx makes exactly these exchanges, one more than
    the transient answers, sleeps the backoff times between them and returns the decoded
    body of the 2xx;
  \<^item> such a request answered by \<open>n + 1\<close> transient statuses makes exactly \<open>n + 1\<close>
    exchanges and fails with a \<open>ComputeHiveError\<close>;
  \<^item> a request with another method (the client's POSTs) that is answered by a transient
    status makes that one exchange and fails with \<open>API request failed\<close>.
\<close>

theorem make_request_retry:
  assumes init: "ComputeHiveClient_init u k t n w0 = (Inr c, w1)"
  shows
    "backoff_factor (adapter (session c)) = 1
     \<and> (m \<in> set DEFAULT_ALLOWED_METHODS \<and> replies w = bad @ good # rest \<and>
        (\<forall>r\<in>set bad. transient r) \<and> int (length bad) \<le> n \<and>
        success good \<and> response_json good = Some j
        \<longrightarrow> fst (make_request c m e d p w) = Inr j \<and>
            replies (snd (make_request c m e d p w)) = rest \<and>
            exchanges_of (events (snd (make_request c m e d p w))) =
              exchanges_of (events w) @ bad @ [good] \<and>
            clock (snd (make_request c m e d p w)) =
              clock w + sum_list (map elapsed bad) + elapsed good
                + backoff_total (adapter (session c)) 0 (length bad))
     \<and> (m \<in> set DEFAULT_ALLOWED_METHODS \<and> replies w = bad @ rest \<and>
        (\<forall>r\<in>set bad. transient r) \<and> 0 \<le> n \<and> int (length bad) = n + 1
        \<longrightarrow> (\<exists>msg. fst (make_request c m e d p w) = Inl (ComputeHiveError msg)) \<and>
            replies (snd (make_request c m e d p w)) = rest \<and>
            exchanges_of (events (snd (make_request c m e d p w))) = exchanges_of (events w) @ bad)
     \<and> (m \<notin> set DEFAULT_ALLOWED_METHODS \<and> replies w = r # rest \<and> transient r
        \<longrightarrow> make_request c m e d p w =
              (Inl (ComputeHiveError [Text ''API request failed: '', Exc (HTTPError r)]),
               \<lparr>environ = environ w, clock = clock w + elapsed r, replies = rest,
                events = events w @
                  [Request \<lparr>http_method = m, url = Text (api_url c) # e, json_body = d,
                            params = p, request_timeout = timeout c\<rparr>,
                   Exchange r]\<rparr>))"
proof -
  note ad = init_adapter [OF init]
  have a: "fst (make_request c m e d p w) = Inr j \<and>
            replies (snd (make_request c m e d p w)) = rest \<and>
            exchanges_of (events (snd (make_request c m e d p w))) =
              exchanges_of (events w) @ bad @ [good] \<and>
            clock (snd (make_request c m e d p w)) =
              clock w + sum_list (map elapsed bad) + elapsed good
                + backoff_total (adapter (session c)) 0 (length bad)"
    if m: "m \<in> set DEFAULT_ALLOWED_METHODS" and w: "replies w = bad @ good # rest"
      and bad: "\<forall>r\<in>set bad. transient r" and len: "int (length bad) \<le> n"
      and good: "success good" "response_json good = Some j"
  proof -
    have "\<exists>evs. urlopen (retry_strategy n) m 0 (bad @ good # rest) =
        (Inr good, evs,
         sum_list (map elapsed bad) + elapsed good + backoff_total (retry_strategy n) 0 (length bad),
         rest) \<and> exchanges_of evs = bad @ [good]"
      using bad len good(1)
      by (intro urlopen_retry_success [OF m])
         (auto simp: retry_strategy_simps transient_def success_def)
    then obtain evs where "urlopen (retry_strategy n) m 0 (bad @ good # rest) =
        (Inr good, evs,
         sum_list (map elapsed bad) + elapsed good + backoff_total (retry_strategy n) 0 (length bad),
         rest)" "exchanges_of evs = bad @ [good]"
      by blast
    then show ?thesis
      using good
      by (simp add: make_request_def session_request_def ad w raise_for_status_success
          exchanges_of_append add.assoc)
  qed
  have b: "(\<exists>msg. fst (make_request c m e d p w) = Inl (ComputeHiveError msg)) \<and>
            replies (snd (make_request c m e d p w)) = rest \<and>
            exchanges_of (events (snd (make_request c m e d p w))) = exchanges_of (events w) @ bad"
    if m: "m \<in> set DEFAULT_ALLOWED_METHODS" and w: "replies w = bad @ rest"
      and bad: "\<forall>r\<in>set bad. transient r" and n: "0 \<le> n" and len: "int (length bad) = n + 1"
  proof -
    have "\<exists>evs t. urlopen (retry_strategy n) m 0 (bad @ rest) = (Inl RetryError, evs, t, rest)
       \<and> exchanges_of evs = bad"
      using bad len n
      by (intro urlopen_retry_exhausted [OF m]) (auto simp: retry_strategy_simps transient_def)
    then obtain evs t where "urlopen (retry_strategy n) m 0 (bad @ rest) =
        (Inl RetryError, evs, t, rest)" "exchanges_of evs = bad"
      by blast
    then show ?thesis
      by (simp add: make_request_def session_request_def ad w exchanges_of_append)
  qed
  have c: "make_request c m e d p w =
              (Inl (ComputeHiveError [Text ''API request failed: '', Exc (HTTPError r)]),
               \<lparr>environ = environ w, clock = clock w + elapsed r, replies = rest,
                events = events w @
                  [Request \<lparr>http_method = m, url = Text (api_url c) # e, json_body = d,
                            params = p, request_timeout = timeout c\<rparr>,
                   Exchange r]\<rparr>)"
    if "m \<notin> set DEFAULT_ALLOWED_METHODS" "replies w = r # rest" "transient r"
    using that
    by (simp add: make_request_def session_request_def is_retry_def transient_raises
        transient_handled world_explicit del: handle_exception.simps)
  show ?thesis using a b c by (simp add: ad retry_strategy_simps)
qed

theorem make_request_retry_witness:
  "backoff_factor (adapter (session example_client)) = 1
   \<and> fst (get_job example_client (JStr ''job-1'')
          (server [unavailable, unavailable, mock (job_record ''running'')])) =
       Inr (job_record ''running'')
   \<and> exchanges_of (events (snd (get_job example_client (JStr ''job-1'')
          (server [unavailable, unavailable, mock (job_record ''running'')])))) =
       [unavailable, unavailable, mock (job_record ''running'')]
   \<and> clock (snd (get_job example_client (JStr ''job-1'')
          (server [unavailable, unavailable, mock (job_record ''running'')]))) = 2
   \<and> exchanges_of (events (snd (get_job example_client (JStr ''job-1'')
          (server [unavailable, unavailable, unavailable, unavailable, mock (job_record ''running'')])))) =
       [unavailable, unavailable, unavailable, unavailable]
   \<and> replies (snd (get_job example_client (JStr ''job-1'')
          (server [unavailable, unavailable, unavailable, unavailable, mock (job_record ''running'')]))) =
       [mock (job_record ''running'')]
   \<and> fst (make_request example_client ''POST'' [Text ''/api/v1/jobs''] None None
          (server [unavailable, unavailable, mock (job_record ''running'')])) =
       Inl (ComputeHiveError [Text ''API request failed: '', Exc (HTTPError unavailable)])
   \<and> replies (snd (make_request example_client ''POST'' [Text ''/api/v1/jobs''] None None
          (server [unavailable, unavailable, mock (job_record ''running'')]))) =
       [unavailable, mock (job_record ''running'')]"
proof -
  let ?u = unavailable and ?ok = "mock (job_record ''running'')"
  let ?e = "[Text ''/api/v1/jobs/'', Val (JStr ''job-1'')]"
  have get: "''GET'' \<in> set DEFAULT_ALLOWED_METHODS" and post: "''POST'' \<notin> set DEFAULT_ALLOWED_METHODS"
    by (simp_all add: DEFAULT_ALLOWED_METHODS_def)
  have u: "transient ?u" by (simp add: transient_def unavailable_def)
  have ok: "success ?ok" "response_json ?ok = Some (job_record ''running'')" "elapsed ?ok = 0"
    "elapsed ?u = 0"
    by (simp_all add: success_def mock_def unavailable_def)
  have a: "''GET'' \<in> set DEFAULT_ALLOWED_METHODS \<and>
      replies (server [?u, ?u, ?ok]) = [?u, ?u] @ ?ok # [] \<and> (\<forall>r\<in>set [?u, ?u]. transient r) \<and>
      int (length [?u, ?u]) \<le> 3 \<and> success ?ok \<and> response_json ?ok = Some (job_record ''running'')"
    using get u ok by (simp add: server_def)
  have b: "''GET'' \<in> set DEFAULT_ALLOWED_METHODS \<and>
      replies (server [?u, ?u, ?u, ?u, ?ok]) = [?u, ?u, ?u, ?u] @ [?ok] \<and>
      (\<forall>r\<in>set [?u, ?u, ?u, ?u]. transient r) \<and> (0::int) \<le> 3 \<and>
      int (length [?u, ?u, ?u, ?u]) = 3 + 1"
    using get u by (simp add: server_def)
  have c: "''POST'' \<notin> set DEFAULT_ALLOWED_METHODS \<and>
      replies (server [?u, ?u, ?ok]) = ?u # [?u, ?ok] \<and> transient ?u"
    using post u by (simp add: server_def)
  note t = make_request_retry [OF example_client_init]
  from t [of "''GET''" "server [?u, ?u, ?ok]" "[?u, ?u]" ?ok "[]" "job_record ''running''" ?e None None] a
  have 1: "fst (make_request example_client ''GET'' ?e None None (server [?u, ?u, ?ok])) =
       Inr (job_record ''running'')"
    "exchanges_of (events (snd (make_request example_client ''GET'' ?e None None
        (server [?u, ?u, ?ok])))) = [?u, ?u, ?ok]"
    "clock (snd (make_request example_client ''GET'' ?e None None (server [?u, ?u, ?ok]))) = 2"
    "backoff_factor (adapter (session example_client)) = 1"
    by (simp_all add: example_backoff ok server_def)
  from t [of "''GET''" "server [?u, ?u, ?u, ?u, ?ok]" "[?u, ?u, ?u, ?u]" _ "[?ok]" _ ?e None None] b
  have 2: "exchanges_of (events (snd (make_request example_client ''GET'' ?e None None
        (server [?u, ?u, ?u, ?u, ?ok])))) = [?u, ?u, ?u, ?u]"
    "replies (snd (make_request example_client ''GET'' ?e None None
        (server [?u, ?u, ?u, ?u, ?ok]))) = [?ok]"
    by (simp_all add: server_def)
  from t [of "''POST''" "server [?u, ?u, ?ok]" _ _ "[?u, ?ok]" _ "[Text ''/api/v1/jobs'']" None None ?u] c
  have 3: "make_request example_client ''POST'' [Text ''/api/v1/jobs''] None None
          (server [?u, ?u, ?ok]) =
       (Inl (ComputeHiveError [Text ''API request failed: '', Exc (HTTPError ?u)]),
        \<lparr>environ = environ (server [?u, ?u, ?ok]), clock = clock (server [?u, ?u, ?ok]) + elapsed ?u,
         replies = [?u, ?ok],
         events = events (server [?u, ?u, ?ok]) @
           [Request \<lparr>http_method = ''POST'', url = Text (api_url example_client) # [Text ''/api/v1/jobs''],
                     json_body = None, params = None, request_timeout = timeout example_client\<rparr>,
            Exchange ?u]\<rparr>)"
    by blast
  from 1 2 3 show ?thesis by (simp add: get_job_def)
qed

text \<open>
  C7. For a client built by the constructor and any request: when the server's first
  answer has status 400, \<open>_make_request\<close> raises \<open>ComputeHiveError("Bad request: " + body)\<close>
  with the answer's body; when it has status 401, it raises \<open>AuthenticationError\<close>. In
  both cases that exchange is the only one (no retry, no sleep); the later answers stay
  unread.
\<close>

theorem make_request_client_error:
  assumes init: "ComputeHiveClient_init u k t n w0 = (Inr c, w1)"
    and w: "replies w = r # rest"
  shows
    "(status_code r = 400 \<longrightarrow>
        make_request c m e d p w =
          (Inl (ComputeHiveError [Text ''Bad request: '', Text (response_text r)]),
           \<lparr>environ = environ w, clock = clock w + elapsed r, replies = rest,
            events = events w @
              [Request \<lparr>http_method = m, url = Text (api_url c) # e, json_body = d,
                        params = p, request_timeout = timeout c\<rparr>,
               Exchange r]\<rparr>))
     \<and> (status_code r = 401 \<longrightarrow>
        make_request c m e d p w =
          (Inl (AuthenticationError [Text ''Invalid API key or authentication failed'']),
           \<lparr>environ = environ w, clock = clock w + elapsed r, replies = rest,
            events = events w @
              [Request \<lparr>http_method = m, url = Text (api_url c) # e, json_body = d,
                        params = p, request_timeout = timeout c\<rparr>,
               Exchange r]\<rparr>))"
  using w
  by (simp add: make_request_def session_request_def init_adapter [OF init] is_retry_def
      retry_strategy_simps raise_for_status_def world_explicit)

theorem make_request_client_error_witness:
  "make_request example_client ''POST'' [Text ''/api/v1/jobs''] None None
     (server [bad_request, mock (job_record ''pending'')]) =
     (Inl (ComputeHiveError [Text ''Bad request: '', Text ''priority out of range'']),
      \<lparr>environ = environ (server []), clock = 0, replies = [mock (job_record ''pending'')],
       events =
         [Request \<lparr>http_method = ''POST'',
                   url = [Text ''https://api.computehive.io'', Text ''/api/v1/jobs''],
                   json_body = None, params = None, request_timeout = 30\<rparr>,
          Exchange bad_request]\<rparr>)
   \<and> fst (get_job example_client (JStr ''job-1'') (server [unauthorized, mock (job_record ''pending'')])) =
     Inl (AuthenticationError [Text ''Invalid API key or authentication failed''])
   \<and> exchanges_of (events (snd
        (get_job example_client (JStr ''job-1'') (server [unauthorized, mock (job_record ''pending'')])))) =
     [unauthorized]"
proof -
  have 1: "replies (server [bad_request, mock (job_record ''pending'')]) =
      bad_request # [mock (job_record ''pending'')]"
    and 2: "replies (server [unauthorized, mock (job_record ''pending'')]) =
      unauthorized # [mock (job_record ''pending'')]"
    by (simp_all add: server_def)
  have s: "status_code bad_request = 400" "status_code unauthorized = 401"
    by (simp_all add: bad_request_def unauthorized_def)
  from make_request_client_error [OF example_client_init 1,
      of "''POST''" "[Text ''/api/v1/jobs'']" None None] s
  have a: "make_request example_client ''POST'' [Text ''/api/v1/jobs''] None None
     (server [bad_request, mock (job_record ''pending'')]) =
     (Inl (ComputeHiveError [Text ''Bad request: '', Text ''priority out of range'']),
      \<lparr>environ = environ (server []), clock = 0, replies = [mock (job_record ''pending'')],
       events =
         [Request \<lparr>http_method = ''POST'',
                   url = [Text ''https://api.computehive.io'', Text ''/api/v1/jobs''],
                   json_body = None, params = None, request_timeout = 30\<rparr>,
          Exchange bad_request]\<rparr>)"
    by (simp add: server_def example_client_def bad_request_def)
  from make_request_client_error [OF example_client_init 2,
      of "''GET''" "[Text ''/api/v1/jobs/'', Val (JStr ''job-1'')]" None None] s
  have b: "fst (get_job example_client (JStr ''job-1'') (server [unauthorized, mock (job_record ''pending'')])) =
     Inl (AuthenticationError [Text ''Invalid API key or authentication failed''])"
    "exchanges_of (events (snd
        (get_job example_client (JStr ''job-1'') (server [unauthorized, mock (job_record ''pending'')])))) =
     [unauthorized]"
    by (simp_all add: get_job_def server_def)
  from a b show ?thesis by simp
qed

end
